theory Spec2Isabelle
  imports Main "HOL-Library.AList" "HOL-Library.Sublist"
begin

section \<open>JavaScript values and exceptions\<close>

text \<open>
  The program is client-side JavaScript. Values that come out of \<^verbatim>\<open>JSON.parse\<close>, out of
  the account source file or out of the object literal that \<^verbatim>\<open>normalizeAccount\<close> builds are
  modelled by \<open>jsval\<close>. An object is an association list from property names to values (the first
  entry for a name is the property; the values built here never repeat a name). Numbers are modelled by
  integers: only their type and their truthiness matter to the code below, and a non-integer number is
  truthy like any non-zero integer.
\<close>

datatype jsval =
    JUndefined
  | JNull
  | JBool bool
  | JNum int
  | JStr string
  | JArr "jsval list"
  | JObj "(string \<times> jsval) list"

text \<open>
  Exceptions are values. \<open>StorageError\<close> stands for whatever \<^verbatim>\<open>localStorage\<close> throws
  (a \<^verbatim>\<open>SecurityError\<close> when storage is disabled, a \<^verbatim>\<open>QuotaExceededError\<close> on a write),
  \<open>NetworkError\<close> for a rejected \<^verbatim>\<open>fetch\<close>, \<open>Error\<close> for \<^verbatim>\<open>new Error(message)\<close>.
\<close>

datatype exn = StorageError | NetworkError | SyntaxError | TypeError | Error string

text \<open>JavaScript truthiness (\<^verbatim>\<open>!!v\<close>): arrays and objects are always truthy.\<close>

fun truthy :: "jsval \<Rightarrow> bool" where
  "truthy JUndefined = False"
| "truthy JNull = False"
| "truthy (JBool b) = b"
| "truthy (JNum n) = (n \<noteq> 0)"
| "truthy (JStr s) = (s \<noteq> [])"
| "truthy (JArr xs) = True"
| "truthy (JObj kvs) = True"

text \<open>\<^verbatim>\<open>a || b\<close>: the left operand when it is truthy, the right one otherwise.\<close>

definition or_js :: "jsval \<Rightarrow> jsval \<Rightarrow> jsval" where
  "or_js a b = (if truthy a then a else b)"

fun isArray :: "jsval \<Rightarrow> bool" where
  "isArray (JArr xs) = True"
| "isArray v = False"

fun is_string :: "jsval \<Rightarrow> bool" where
  "is_string (JStr s) = True"
| "is_string v = False"

fun nullish :: "jsval \<Rightarrow> bool" where
  "nullish JUndefined = True"
| "nullish JNull = True"
| "nullish v = False"

fun primitive :: "jsval \<Rightarrow> bool" where
  "primitive (JArr xs) = False"
| "primitive (JObj kvs) = False"
| "primitive v = True"

text \<open>
  \<^verbatim>\<open>a === b\<close>. Primitives compare by value. Arrays and objects compare by reference; every array or
  object of the model is a separate allocation, so two of them are never the same reference. This is
  exact whenever one operand is a primitive.
\<close>

fun strict_equals :: "jsval \<Rightarrow> jsval \<Rightarrow> bool" where
  "strict_equals JUndefined JUndefined = True"
| "strict_equals JNull JNull = True"
| "strict_equals (JBool a) (JBool b) = (a = b)"
| "strict_equals (JNum a) (JNum b) = (a = b)"
| "strict_equals (JStr a) (JStr b) = (a = b)"
| "strict_equals a b = False"

section \<open>Configuration (the \<^verbatim>\<open>CONFIG\<close> object of app.js)\<close>

definition FAVORITES_KEY :: string where
  "FAVORITES_KEY = ''accounts:favs''"

definition THEME_KEY :: string where
  "THEME_KEY = ''accounts:theme''"

definition VERSION_KEY :: string where
  "VERSION_KEY = ''accounts:version''"

definition APP_VERSION :: string where
  "APP_VERSION = ''2.0''"

section \<open>The key-value store\<close>

text \<open>
  \<^verbatim>\<open>localStorage\<close> maps string keys to string values; \<open>items\<close> lists the entries, one per key.
  Any access to the store may throw. Which accesses throw is not decided by the program, so the
  state carries a schedule \<open>faults\<close>: each access takes the head of the schedule and throws when it
  is \<open>True\<close>; an exhausted schedule means that no further access throws.
\<close>

record storage =
  items :: "(string \<times> string) list"
  faults :: "bool list"

type_synonym 'a io = "storage \<Rightarrow> (exn + 'a) \<times> storage"

definition return_io :: "'a \<Rightarrow> 'a io" where
  "return_io x = (\<lambda>s. (Inr x, s))"

definition throw_io :: "exn \<Rightarrow> 'a io" where
  "throw_io e = (\<lambda>s. (Inl e, s))"

text \<open>Sequencing: an exception of the first statement skips the rest.\<close>

definition bind_io :: "'a io \<Rightarrow> ('a \<Rightarrow> 'b io) \<Rightarrow> 'b io" where
  "bind_io m f = (\<lambda>s. case m s of (Inl e, s') \<Rightarrow> (Inl e, s') | (Inr x, s') \<Rightarrow> f x s')"

text \<open>\<^verbatim>\<open>try { m } catch (error) { h(error) }\<close>: the handler runs in the state the exception left.\<close>

definition try_catch :: "'a io \<Rightarrow> (exn \<Rightarrow> 'a io) \<Rightarrow> 'a io" where
  "try_catch m h = (\<lambda>s. case m s of (Inl e, s') \<Rightarrow> h e s' | (Inr x, s') \<Rightarrow> (Inr x, s'))"

text \<open>A pure computation that may throw, such as \<^verbatim>\<open>JSON.parse(text)\<close>.\<close>

definition lift_io :: "exn + 'a \<Rightarrow> 'a io" where
  "lift_io r = (\<lambda>s. (r, s))"

definition access :: "unit io" where
  "access s = (case faults s of
       [] \<Rightarrow> (Inr (), s)
     | b # bs \<Rightarrow> (if b then Inl StorageError else Inr (), s\<lparr>faults := bs\<rparr>))"

text \<open>\<^verbatim>\<open>localStorage.getItem(key)\<close>: \<open>None\<close> is \<^verbatim>\<open>null\<close>.\<close>

definition getItem :: "string \<Rightarrow> string option io" where
  "getItem key = bind_io access (\<lambda>_ s. (Inr (map_of (items s) key), s))"

definition setItem :: "string \<Rightarrow> string \<Rightarrow> unit io" where
  "setItem key v = bind_io access (\<lambda>_ s. (Inr (), s\<lparr>items := AList.update key v (items s)\<rparr>))"

definition removeItem :: "string \<Rightarrow> unit io" where
  "removeItem key = bind_io access (\<lambda>_ s. (Inr (), s\<lparr>items := AList.delete key (items s)\<rparr>))"

text \<open>\<^verbatim>\<open>Object.keys(localStorage)\<close>: a snapshot of the keys.\<close>

definition keys :: "string list io" where
  "keys = bind_io access (\<lambda>_ s. (Inr (map fst (items s)), s))"

text \<open>\<^verbatim>\<open>xs.forEach(f)\<close>.\<close>

fun forEach :: "('a \<Rightarrow> unit io) \<Rightarrow> 'a list \<Rightarrow> unit io" where
  "forEach f [] = return_io ()"
| "forEach f (x # xs) = bind_io (f x) (\<lambda>_. forEach f xs)"

text \<open>
  \<^verbatim>\<open>a < b\<close> on two strings: lexicographic on the code units. Strings are \<open>char list\<close>, one
  \<open>char\<close> per code unit below 256.
\<close>

fun str_less :: "string \<Rightarrow> string \<Rightarrow> bool" where
  "str_less [] [] = False"
| "str_less [] (y # ys) = True"
| "str_less (x # xs) [] = False"
| "str_less (x # xs) (y # ys) =
     ((of_char x :: nat) < of_char y \<or> (x = y \<and> str_less xs ys))"

text \<open>\<^verbatim>\<open>s.startsWith(p)\<close>.\<close>

definition startsWith :: "string \<Rightarrow> string \<Rightarrow> bool" where
  "startsWith s p = (take (length p) s = p)"

text \<open>A stored item as a condition (\<^verbatim>\<open>if (item)\<close>): \<^verbatim>\<open>null\<close> and the empty string are falsy.\<close>

fun truthy_item :: "string option \<Rightarrow> bool" where
  "truthy_item None = False"
| "truthy_item (Some s) = (s \<noteq> [])"

section \<open>Version migration (app.js, \<^verbatim>\<open>migrateLocalStorageData\<close>)\<close>

text \<open>
  \<^verbatim>\<open>showToast\<close> returns at once while \<^verbatim>\<open>DOM.toastContainer\<close> is unset, and \<^verbatim>\<open>init\<close> runs
  the migration before \<^verbatim>\<open>cacheDOMElements\<close>; with a container it only adds an element to the page.
  It never touches the store. \<^verbatim>\<open>log\<close> prints only when \<^verbatim>\<open>CONFIG.DEBUG\<close> is set.
\<close>

definition showToast :: "string \<Rightarrow> string \<Rightarrow> unit io" where
  "showToast message type = return_io ()"

definition v1Keys :: "string list" where
  "v1Keys = [''accountsApp:settings'', ''accountsApp:preferences'', ''accountsApp:cache'',
             ''accounts:cache'', ''accounts:settings'']"

definition keysToPreserve :: "string list" where
  "keysToPreserve = [THEME_KEY, FAVORITES_KEY]"

text \<open>\<^verbatim>\<open>theme && ["light", "dark"].includes(theme)\<close>\<close>

fun valid_theme :: "string option \<Rightarrow> bool" where
  "valid_theme None = False"
| "valid_theme (Some t) = (t \<noteq> [] \<and> t \<in> set [''light'', ''dark''])"

text \<open>
  The platform's \<^verbatim>\<open>JSON.parse\<close> is a parameter \<open>parse\<close> of every function that calls it;
  \<open>Inl SyntaxError\<close> is the exception it throws on text that is not JSON.
\<close>

text \<open>
  The block \<^verbatim>\<open>if (storedVersion < "2.0") { ... }\<close>, entered with the theme and the favorites
  that were read before it.
\<close>

definition migrate_v1 :: "(string \<Rightarrow> exn + jsval) \<Rightarrow> string option \<Rightarrow> string option \<Rightarrow> unit io" where
  "migrate_v1 parse theme favs =
     bind_io (if valid_theme theme then return_io () else removeItem THEME_KEY) (\<lambda>_.
     bind_io (case favs of
                None \<Rightarrow> return_io ()
              | Some text \<Rightarrow>
                  if text = [] then return_io ()
                  else try_catch
                         (bind_io (lift_io (parse text)) (\<lambda>favorites.
                            if isArray favorites then return_io ()
                            else throw_io (Error ''Invalid favorites format'')))
                         (\<lambda>error. removeItem FAVORITES_KEY)) (\<lambda>_.
     forEach (\<lambda>key. bind_io (getItem key) (\<lambda>v.
                if truthy_item v then removeItem key else return_io ())) v1Keys))"

text \<open>The body of the outer \<^verbatim>\<open>try\<close>.\<close>

definition migration_main :: "(string \<Rightarrow> exn + jsval) \<Rightarrow> unit io" where
  "migration_main parse =
     bind_io (getItem VERSION_KEY) (\<lambda>storedVersion.
       if \<not> truthy_item storedVersion \<or> storedVersion = Some APP_VERSION then
         (if \<not> truthy_item storedVersion then setItem VERSION_KEY APP_VERSION else return_io ())
       else
         bind_io (getItem THEME_KEY) (\<lambda>theme.
         bind_io (getItem FAVORITES_KEY) (\<lambda>favs.
         bind_io (if (case storedVersion of Some v \<Rightarrow> str_less v ''2.0'' | None \<Rightarrow> False)
                  then migrate_v1 parse theme favs else return_io ()) (\<lambda>_.
         bind_io (setItem VERSION_KEY APP_VERSION) (\<lambda>_.
         showToast ''App updated! Your preferences have been preserved.'' ''success'')))))"

text \<open>The body of the outer \<^verbatim>\<open>catch\<close>: the safe fallback.\<close>

definition safe_fallback :: "(string \<Rightarrow> exn + jsval) \<Rightarrow> unit io" where
  "safe_fallback parse =
     bind_io (getItem THEME_KEY) (\<lambda>theme.
     bind_io (getItem FAVORITES_KEY) (\<lambda>favs.
     bind_io keys (\<lambda>ks.
     bind_io (forEach (\<lambda>key.
                if startsWith key ''accounts:'' \<and> key \<notin> set keysToPreserve
                then removeItem key else return_io ()) ks) (\<lambda>_.
     bind_io (case theme of
                None \<Rightarrow> return_io ()
              | Some t \<Rightarrow> if valid_theme (Some t) then setItem THEME_KEY t else return_io ()) (\<lambda>_.
     bind_io (try_catch
                (case favs of
                   None \<Rightarrow> return_io ()
                 | Some text \<Rightarrow>
                     if text = [] then return_io ()
                     else bind_io (lift_io (parse text)) (\<lambda>_. setItem FAVORITES_KEY text))
                (\<lambda>e. return_io ())) (\<lambda>_.
     bind_io (setItem VERSION_KEY APP_VERSION) (\<lambda>_.
     showToast ''App updated with clean settings.'' ''warning'')))))))"

definition migrateLocalStorageData :: "(string \<Rightarrow> exn + jsval) \<Rightarrow> unit io" where
  "migrateLocalStorageData parse = try_catch (migration_main parse) (\<lambda>error. safe_fallback parse)"

section \<open>\<^verbatim>\<open>JSON.parse\<close> on a fragment of JSON\<close>

text \<open>
  Concrete inputs need a concrete parser. \<open>JSON_parse\<close> reads the fragment of JSON made of
  \<^verbatim>\<open>null\<close>, \<^verbatim>\<open>true\<close>, \<^verbatim>\<open>false\<close>, integer literals, strings with the two-character
  escapes, arrays and objects, with JSON's white space; on a repeated member name the last value
  wins, as in JavaScript. Fractions, exponents and four-digit escapes are outside the fragment and
  are rejected here. The general theorems below hold for every parser; \<open>JSON_parse\<close> is only
  evaluated on texts of the fragment. The recursion runs on fuel: each call of \<open>parse_value\<close>,
  \<open>parse_elements\<close> or \<open>parse_members\<close> takes one unit, and two calls in a row consume at least one
  character.
\<close>

definition is_ws :: "char \<Rightarrow> bool" where
  "is_ws c = (c \<in> set [CHR '' '', CHR 0x09, CHR 0x0A, CHR 0x0D])"

definition skip_ws :: "string \<Rightarrow> string" where
  "skip_ws cs = dropWhile is_ws cs"

definition is_digit :: "char \<Rightarrow> bool" where
  "is_digit c = ((48::nat) \<le> of_char c \<and> (of_char c :: nat) \<le> 57)"

fun parse_digits :: "string \<Rightarrow> nat \<Rightarrow> nat \<times> string" where
  "parse_digits [] acc = (acc, [])"
| "parse_digits (c # cs) acc =
     (if is_digit c then parse_digits cs (10 * acc + (of_char c - 48)) else (acc, c # cs))"

definition parse_number :: "string \<Rightarrow> (jsval \<times> string) option" where
  "parse_number cs =
     (let neg = (case cs of [] \<Rightarrow> False | c # r \<Rightarrow> c = CHR ''-'');
          ds = (if neg then tl cs else cs)
      in case ds of
           [] \<Rightarrow> None
         | d # r \<Rightarrow>
             if \<not> is_digit d then None
             else let (n, rest) = (if d = CHR ''0'' then (0, r) else parse_digits (d # r) 0)
                  in if (case rest of [] \<Rightarrow> False | c # _ \<Rightarrow> c \<in> set ''.eE'') then None
                     else Some (JNum (if neg then - int n else int n), rest))"

definition unescape :: "char \<Rightarrow> char option" where
  "unescape e =
     (if e = CHR 0x22 then Some (CHR 0x22)
      else if e = CHR 0x5C then Some (CHR 0x5C)
      else if e = CHR ''/'' then Some (CHR ''/'')
      else if e = CHR ''b'' then Some (CHR 0x08)
      else if e = CHR ''f'' then Some (CHR 0x0C)
      else if e = CHR ''n'' then Some (CHR 0x0A)
      else if e = CHR ''r'' then Some (CHR 0x0D)
      else if e = CHR ''t'' then Some (CHR 0x09)
      else None)"

fun parse_string :: "string \<Rightarrow> string \<Rightarrow> (string \<times> string) option" where
  "parse_string [] acc = None"
| "parse_string [c] acc = (if c = CHR 0x22 then Some (rev acc, []) else None)"
| "parse_string (c # d # cs) acc =
     (if c = CHR 0x22 then Some (rev acc, d # cs)
      else if c = CHR 0x5C then
        (case unescape d of None \<Rightarrow> None | Some u \<Rightarrow> parse_string cs (u # acc))
      else if (of_char c :: nat) < 32 then None
      else parse_string (d # cs) (c # acc))"

fun parse_value :: "nat \<Rightarrow> string \<Rightarrow> (jsval \<times> string) option"
  and parse_elements :: "nat \<Rightarrow> jsval list \<Rightarrow> string \<Rightarrow> (jsval \<times> string) option"
  and parse_members :: "nat \<Rightarrow> (string \<times> jsval) list \<Rightarrow> string \<Rightarrow> (jsval \<times> string) option"
where
  "parse_value 0 cs = None"
| "parse_value (Suc n) cs =
     (case skip_ws cs of
        [] \<Rightarrow> None
      | c # rest \<Rightarrow>
          if c = CHR 0x22 then
            (case parse_string rest [] of None \<Rightarrow> None | Some (s, r) \<Rightarrow> Some (JStr s, r))
          else if c = CHR ''['' then
            (case skip_ws rest of
               [] \<Rightarrow> None
             | d # r \<Rightarrow> if d = CHR '']'' then Some (JArr [], r) else parse_elements n [] rest)
          else if c = CHR ''{'' then
            (case skip_ws rest of
               [] \<Rightarrow> None
             | d # r \<Rightarrow> if d = CHR ''}'' then Some (JObj [], r) else parse_members n [] rest)
          else if take 4 (c # rest) = ''null'' then Some (JNull, drop 4 (c # rest))
          else if take 4 (c # rest) = ''true'' then Some (JBool True, drop 4 (c # rest))
          else if take 5 (c # rest) = ''false'' then Some (JBool False, drop 5 (c # rest))
          else parse_number (c # rest))"
| "parse_elements 0 acc cs = None"
| "parse_elements (Suc n) acc cs =
     (case parse_value n cs of
        None \<Rightarrow> None
      | Some (v, rest) \<Rightarrow>
          (case skip_ws rest of
             [] \<Rightarrow> None
           | d # r \<Rightarrow>
               if d = CHR '','' then parse_elements n (acc @ [v]) r
               else if d = CHR '']'' then Some (JArr (acc @ [v]), r)
               else None))"
| "parse_members 0 acc cs = None"
| "parse_members (Suc n) acc cs =
     (case skip_ws cs of
        [] \<Rightarrow> None
      | q # rest \<Rightarrow>
          if q \<noteq> CHR 0x22 then None
          else (case parse_string rest [] of
                  None \<Rightarrow> None
                | Some (k, rest1) \<Rightarrow>
                    (case skip_ws rest1 of
                       [] \<Rightarrow> None
                     | colon # rest2 \<Rightarrow>
                         if colon \<noteq> CHR '':'' then None
                         else (case parse_value n rest2 of
                                 None \<Rightarrow> None
                               | Some (v, rest3) \<Rightarrow>
                                   (case skip_ws rest3 of
                                      [] \<Rightarrow> None
                                    | d # r \<Rightarrow>
                                        if d = CHR '','' then parse_members n (AList.update k v acc) r
                                        else if d = CHR ''}'' then Some (JObj (AList.update k v acc), r)
                                        else None)))))"

definition JSON_parse :: "string \<Rightarrow> exn + jsval" where
  "JSON_parse s =
     (case parse_value (2 * length s + 2) s of
        None \<Rightarrow> Inl SyntaxError
      | Some (v, rest) \<Rightarrow> if skip_ws rest = [] then Inr v else Inl SyntaxError)"


section \<open>Theme (app.js, \<^verbatim>\<open>initializeTheme\<close>)\<close>

definition DEFAULT_THEME :: string where
  "DEFAULT_THEME = ''light''"

text \<open>
  The result is the value given to \<^verbatim>\<open>currentTheme\<close> and passed to \<^verbatim>\<open>applyTheme\<close>.
  \<open>default_theme\<close> is \<^verbatim>\<open>CONFIG.DEFAULT_THEME\<close> (documented there as \<^verbatim>\<open>'light'\<close>, \<^verbatim>\<open>'dark'\<close>
  or \<^verbatim>\<open>'system'\<close>) and \<open>systemPrefersDark\<close> is what
  \<^verbatim>\<open>window.matchMedia("(prefers-color-scheme: dark)").matches\<close> gives. The listener for later
  changes of the system preference is registered after the theme is chosen and is not modelled.
\<close>

definition initializeTheme :: "string \<Rightarrow> bool \<Rightarrow> string io" where
  "initializeTheme default_theme systemPrefersDark =
     try_catch
       (bind_io (getItem THEME_KEY) (\<lambda>savedTheme.
          let defaultTheme =
                (if default_theme = ''system''
                 then (if systemPrefersDark then ''dark'' else ''light'')
                 else default_theme)
          in return_io (case savedTheme of
                          None \<Rightarrow> defaultTheme
                        | Some t \<Rightarrow> if t \<noteq> [] then t else defaultTheme)))
       (\<lambda>error. return_io ''light'')"

section \<open>Account normalization and loading (\<^verbatim>\<open>normalizeAccount\<close>, \<^verbatim>\<open>loadData\<close>)\<close>

text \<open>
  \<^verbatim>\<open>raw.key\<close> for a value that is neither \<^verbatim>\<open>null\<close> nor \<^verbatim>\<open>undefined\<close>, and for the keys this
  program reads (none of them is a built-in property of arrays, strings, numbers or booleans):
  the property of an object, \<^verbatim>\<open>undefined\<close> otherwise.
\<close>

fun prop_of :: "jsval \<Rightarrow> string \<Rightarrow> jsval" where
  "prop_of (JObj kvs) k = (case map_of kvs k of None \<Rightarrow> JUndefined | Some v \<Rightarrow> v)"
| "prop_of v k = JUndefined"

text \<open>Reading a property of \<^verbatim>\<open>null\<close> or \<^verbatim>\<open>undefined\<close> throws a \<^verbatim>\<open>TypeError\<close>.\<close>

definition read_prop :: "jsval \<Rightarrow> string \<Rightarrow> exn + jsval" where
  "read_prop v k = (if nullish v then Inl TypeError else Inr (prop_of v k))"

text \<open>Sequencing of computations that may throw and have no other effect.\<close>

definition bind_ex :: "exn + 'a \<Rightarrow> ('a \<Rightarrow> exn + 'b) \<Rightarrow> exn + 'b" where
  "bind_ex m f = (case m of Inl e \<Rightarrow> Inl e | Inr x \<Rightarrow> f x)"

text \<open>
  app.js, \<^verbatim>\<open>normalizeAccount(raw)\<close>. The first thing it evaluates is \<^verbatim>\<open>raw.id\<close>, which throws
  when \<open>raw\<close> is \<^verbatim>\<open>null\<close> or \<^verbatim>\<open>undefined\<close>; nothing else in it throws. \<open>rnd\<close> is the string that
  \<^verbatim>\<open>String(Math.random())\<close> gives at this call.
\<close>

definition normalizeAccount :: "string \<Rightarrow> jsval \<Rightarrow> exn + jsval" where
  "normalizeAccount rnd raw =
     (if nullish raw then Inl TypeError
      else Inr (JObj
        [(''id'', or_js (prop_of raw ''id'') (or_js (prop_of raw ''ID'') (JStr rnd))),
         (''bank'', or_js (prop_of raw ''Bank'') (or_js (prop_of raw ''bank'') (JStr ''Unknown Bank''))),
         (''title'', or_js (prop_of raw ''Title'') (or_js (prop_of raw ''title'') (JStr ''Account''))),
         (''acc_no'', or_js (prop_of raw ''acc_no'') (or_js (prop_of raw ''acct_no'')
                        (or_js (prop_of raw ''account_number'') (JStr [])))),
         (''iban'', or_js (prop_of raw ''iban'') (or_js (prop_of raw ''IBAN'') (JStr []))),
         (''currency'', or_js (prop_of raw ''currency'') (or_js (prop_of raw ''Currency'') (JStr ''PKR''))),
         (''purpose'', or_js (prop_of raw ''purpose'') (or_js (prop_of raw ''Purpose'') (JStr ''General''))),
         (''note'', or_js (prop_of raw ''note'') (or_js (prop_of raw ''Note'') (JStr []))),
         (''logo'', or_js (prop_of raw ''logo'') JNull)]))"

text \<open>app\_backup.js, \<^verbatim>\<open>normalizeAccount(raw)\<close>: the same without the logo.\<close>

definition normalizeAccount_backup :: "string \<Rightarrow> jsval \<Rightarrow> exn + jsval" where
  "normalizeAccount_backup rnd raw =
     (if nullish raw then Inl TypeError
      else Inr (JObj
        [(''id'', or_js (prop_of raw ''id'') (or_js (prop_of raw ''ID'') (JStr rnd))),
         (''bank'', or_js (prop_of raw ''Bank'') (or_js (prop_of raw ''bank'') (JStr ''Unknown Bank''))),
         (''title'', or_js (prop_of raw ''Title'') (or_js (prop_of raw ''title'') (JStr ''Account''))),
         (''acc_no'', or_js (prop_of raw ''acc_no'') (or_js (prop_of raw ''acct_no'')
                        (or_js (prop_of raw ''account_number'') (JStr [])))),
         (''iban'', or_js (prop_of raw ''iban'') (or_js (prop_of raw ''IBAN'') (JStr []))),
         (''currency'', or_js (prop_of raw ''currency'') (or_js (prop_of raw ''Currency'') (JStr ''PKR''))),
         (''purpose'', or_js (prop_of raw ''purpose'') (or_js (prop_of raw ''Purpose'') (JStr ''General''))),
         (''note'', or_js (prop_of raw ''note'') (or_js (prop_of raw ''Note'') (JStr [])))]))"

text \<open>\<^verbatim>\<open>getSampleData()\<close>, the same in both files.\<close>

definition getSampleData :: "jsval list" where
  "getSampleData =
     [JObj [(''Bank'', JStr ''Faysal Bank''), (''Title'', JStr ''Al-Rahman Trading Co.''),
            (''acc_no'', JStr ''4587123900456712''), (''iban'', JStr ''PK36FAYS0045871239004567''),
            (''id'', JStr ''1''), (''currency'', JStr ''PKR''), (''purpose'', JStr ''Business''),
            (''logo'', JStr ''./assets/Faysal_Bank.svg'')],
      JObj [(''Bank'', JStr ''Allied Bank''), (''Title'', JStr ''Bilal & Sons Electronics''),
            (''acc_no'', JStr ''7890123456789012''), (''iban'', JStr ''PK74ABPA0078901234567890''),
            (''id'', JStr ''2''), (''currency'', JStr ''PKR''), (''purpose'', JStr ''Business''),
            (''logo'', JStr ''./assets/allied_bank.svg'')],
      JObj [(''Bank'', JStr ''JazzCash''), (''Title'', JStr ''Ayesha Fatima''),
            (''acc_no'', JStr ''03211234567''), (''iban'', JStr ''PK15JCMA0412900321123456''),
            (''id'', JStr ''3''), (''currency'', JStr ''PKR''), (''purpose'', JStr ''Mobile Wallet''),
            (''logo'', JStr ''./assets/jazzcash.svg'')]]"

text \<open>
  \<^verbatim>\<open>data.map(normalizeAccount)\<close>: \<open>rnd i\<close> is the random string available to the element at
  index \<open>i\<close>. An exception of one call ends the whole \<^verbatim>\<open>map\<close>.
\<close>

fun map_normalize :: "(string \<Rightarrow> jsval \<Rightarrow> exn + jsval) \<Rightarrow> (nat \<Rightarrow> string) \<Rightarrow> nat \<Rightarrow> jsval list
                      \<Rightarrow> exn + jsval list" where
  "map_normalize norm rnd i [] = Inr []"
| "map_normalize norm rnd i (x # xs) =
     bind_ex (norm (rnd i) x) (\<lambda>a.
     bind_ex (map_normalize norm rnd (Suc i) xs) (\<lambda>as. Inr (a # as)))"

text \<open>
  What \<^verbatim>\<open>fetch(url)\<close> settles to: a rejection, or a response with its \<^verbatim>\<open>ok\<close> flag and its
  body; \<^verbatim>\<open>response.json()\<close> parses the body.
\<close>

datatype response = Response (ok: bool) (body: string)

text \<open>
  app.js, \<^verbatim>\<open>loadData\<close>: the result is the value assigned to \<^verbatim>\<open>allAccounts\<close> and returned; \<open>Inl\<close>
  would be an exception that reaches the caller.
\<close>

definition loadData :: "(string \<Rightarrow> exn + jsval) \<Rightarrow> (nat \<Rightarrow> string) \<Rightarrow> exn + response
                        \<Rightarrow> exn + jsval list" where
  "loadData parse rnd fetched =
     (case bind_ex fetched (\<lambda>response.
             if \<not> ok response then Inl (Error ''HTTP'')
             else bind_ex (parse (body response)) (\<lambda>data.
               case data of
                 JArr xs \<Rightarrow> map_normalize normalizeAccount rnd 0 xs
               | _ \<Rightarrow> Inl (Error ''Invalid data format: expected an array''))) of
        Inr accounts \<Rightarrow> Inr accounts
      | Inl error \<Rightarrow> map_normalize normalizeAccount rnd 0 getSampleData)"

text \<open>app\_backup.js, \<^verbatim>\<open>loadData\<close>: the handler assigns \<^verbatim>\<open>getSampleData()\<close> as it is.\<close>

definition loadData_backup :: "(string \<Rightarrow> exn + jsval) \<Rightarrow> (nat \<Rightarrow> string) \<Rightarrow> exn + response
                               \<Rightarrow> exn + jsval list" where
  "loadData_backup parse rnd fetched =
     (case bind_ex fetched (\<lambda>response.
             if \<not> ok response then Inl (Error ''HTTP'')
             else bind_ex (parse (body response)) (\<lambda>data.
               case data of
                 JArr xs \<Rightarrow> map_normalize normalizeAccount_backup rnd 0 xs
               | _ \<Rightarrow> Inl (Error ''Invalid data format: expected an array''))) of
        Inr accounts \<Rightarrow> Inr accounts
      | Inl error \<Rightarrow> Inr getSampleData)"

section \<open>Favorites (app.js, \<^verbatim>\<open>loadFavorites\<close>, \<^verbatim>\<open>toggleFavorite\<close>, \<^verbatim>\<open>isFavorite\<close>)\<close>

text \<open>\<^verbatim>\<open>loadFavorites()\<close>: the result is the value assigned to the variable \<^verbatim>\<open>favorites\<close>.\<close>

definition loadFavorites :: "(string \<Rightarrow> exn + jsval) \<Rightarrow> jsval io" where
  "loadFavorites parse =
     try_catch
       (bind_io (getItem FAVORITES_KEY) (\<lambda>stored.
          case stored of
            None \<Rightarrow> return_io (JArr [])
          | Some text \<Rightarrow> if text \<noteq> [] then lift_io (parse text) else return_io (JArr [])))
       (\<lambda>error. return_io (JArr []))"

text \<open>\<^verbatim>\<open>xs.indexOf(v)\<close>: the first index whose element is \<^verbatim>\<open>=== v\<close>; \<open>None\<close> is \<^verbatim>\<open>-1\<close>.\<close>

fun indexOf :: "jsval list \<Rightarrow> jsval \<Rightarrow> nat option" where
  "indexOf [] v = None"
| "indexOf (x # xs) v = (if strict_equals x v then Some 0 else map_option Suc (indexOf xs v))"

text \<open>
  \<^verbatim>\<open>saveFavorites()\<close>: \<open>stringify\<close> is the platform's \<^verbatim>\<open>JSON.stringify\<close>. Whatever the
  serialization or the store throws is caught.
\<close>

definition saveFavorites :: "(jsval \<Rightarrow> exn + string) \<Rightarrow> jsval \<Rightarrow> unit io" where
  "saveFavorites stringify favorites =
     try_catch
       (bind_io (lift_io (stringify favorites)) (\<lambda>json. setItem FAVORITES_KEY json))
       (\<lambda>error. return_io ())"

text \<open>
  \<^verbatim>\<open>toggleFavorite(accountId)\<close> changes the array in \<^verbatim>\<open>favorites\<close> and then shows a toast, saves,
  and updates the page. The state it runs on has three parts: the value of the variable
  \<^verbatim>\<open>favorites\<close>, the store, and the page, which stands for everything else the calls read and
  write (the document, \<^verbatim>\<open>DOM\<close>, \<^verbatim>\<open>allAccounts\<close>, \<^verbatim>\<open>currentFilters\<close>). The page is a type
  parameter. The four calls into it are \<^verbatim>\<open>showToast(message, type)\<close>,
  \<^verbatim>\<open>updateFavoriteButton(accountId)\<close>, \<^verbatim>\<open>renderFavoritesStrip()\<close> and \<^verbatim>\<open>applyFilters()\<close>. They
  read \<^verbatim>\<open>favorites\<close> (through \<^verbatim>\<open>isFavorite\<close>); none of them assigns \<^verbatim>\<open>favorites\<close> or changes its
  array, and none touches the store. Each can throw: \<^verbatim>\<open>querySelectorAll\<close> throws a
  \<^verbatim>\<open>SyntaxError\<close> on an id that breaks the selector it is spliced into, the filter a
  \<^verbatim>\<open>TypeError\<close> on a field it cannot lower. What a call does is the parameter \<open>page\<close>: from the
  call, the value of \<^verbatim>\<open>favorites\<close> and the page it gives the outcome and the page after it.
\<close>

datatype page_call =
    ShowToast string string
  | UpdateFavoriteButton jsval
  | RenderFavoritesStrip
  | ApplyFilters

type_synonym 'p app = "jsval \<times> storage \<times> 'p"

text \<open>Sequencing: the rest runs only when the first part did not throw.\<close>

definition and_then ::
  "(exn + unit) \<times> 'p app \<Rightarrow> ('p app \<Rightarrow> (exn + unit) \<times> 'p app) \<Rightarrow> (exn + unit) \<times> 'p app" where
  "and_then r rest = (case fst r of Inl e \<Rightarrow> r | Inr u \<Rightarrow> rest (snd r))"

definition on_page :: "(jsval \<Rightarrow> 'p \<Rightarrow> (exn + unit) \<times> 'p) \<Rightarrow> 'p app \<Rightarrow> (exn + unit) \<times> 'p app" where
  "on_page call st =
     (case st of (favorites, s, p) \<Rightarrow>
        (case call favorites p of (r, p') \<Rightarrow> (r, favorites, s, p')))"

definition on_store :: "(jsval \<Rightarrow> unit io) \<Rightarrow> 'p app \<Rightarrow> (exn + unit) \<times> 'p app" where
  "on_store act st =
     (case st of (favorites, s, p) \<Rightarrow>
        (case act favorites s of (r, s') \<Rightarrow> (r, favorites, s', p)))"

text \<open>
  The result is the outcome of the call (\<open>Inl\<close> when it throws) with the state it leaves. The
  argument is the \<^verbatim>\<open>id\<close> of an account, whatever its type. \<^verbatim>\<open>splice(index, 1)\<close> removes the
  element at \<open>index\<close>, \<^verbatim>\<open>push\<close> appends. A value of \<^verbatim>\<open>favorites\<close> that is not an array has no
  \<^verbatim>\<open>indexOf\<close> (or, for a string, no \<^verbatim>\<open>splice\<close> and no \<^verbatim>\<open>push\<close>), so the call throws before
  anything changes. \<open>only_favorites\<close> reads \<^verbatim>\<open>currentFilters.favoritesOnly\<close> from the page.
\<close>

definition toggleFavorite ::
  "(jsval \<Rightarrow> exn + string) \<Rightarrow> (page_call \<Rightarrow> jsval \<Rightarrow> 'p \<Rightarrow> (exn + unit) \<times> 'p) \<Rightarrow> ('p \<Rightarrow> bool)
   \<Rightarrow> jsval \<Rightarrow> 'p app \<Rightarrow> (exn + unit) \<times> 'p app" where
  "toggleFavorite stringify page only_favorites accountId st =
     (case fst st of
        JArr xs \<Rightarrow>
          (let index = indexOf xs accountId;
               changed = (JArr (case index of
                                  Some i \<Rightarrow> take i xs @ drop (Suc i) xs
                                | None \<Rightarrow> xs @ [accountId]), snd st)
           in and_then
                (on_page (page (ShowToast (if index \<noteq> None then ''Removed from favorites''
                                           else ''Added to favorites'') ''success'')) changed)
                (\<lambda>st. and_then (on_store (saveFavorites stringify) st)
                (\<lambda>st. and_then (on_page (page (UpdateFavoriteButton accountId)) st)
                (\<lambda>st. and_then (on_page (page RenderFavoritesStrip) st)
                (\<lambda>st. if only_favorites (snd (snd st)) then on_page (page ApplyFilters) st
                       else (Inr (), st))))))
      | _ \<Rightarrow> (Inl TypeError, st))"

text \<open>
  A run of \<^verbatim>\<open>toggleFavorite\<close> calls, one per click, in order. An exception of one call ends the
  handler of that click only; the next call starts from the state the previous one left.
\<close>

fun toggle_all ::
  "(jsval \<Rightarrow> exn + string) \<Rightarrow> (page_call \<Rightarrow> jsval \<Rightarrow> 'p \<Rightarrow> (exn + unit) \<times> 'p) \<Rightarrow> ('p \<Rightarrow> bool)
   \<Rightarrow> jsval list \<Rightarrow> 'p app \<Rightarrow> 'p app" where
  "toggle_all stringify page only_favorites [] st = st"
| "toggle_all stringify page only_favorites (accountId # ids) st =
     toggle_all stringify page only_favorites ids
       (snd (toggleFavorite stringify page only_favorites accountId st))"

text \<open>
  \<^verbatim>\<open>isFavorite(accountId)\<close> for an array \<^verbatim>\<open>favorites\<close> with elements \<open>favs\<close>:
  \<^verbatim>\<open>favs.includes(accountId)\<close>. On the values of the model (no \<^verbatim>\<open>NaN\<close>) the comparison of
  \<^verbatim>\<open>includes\<close> agrees with \<^verbatim>\<open>===\<close>.
\<close>

definition isFavorite :: "jsval list \<Rightarrow> jsval \<Rightarrow> bool" where
  "isFavorite favs accountId = list_ex (\<lambda>x. strict_equals x accountId) favs"

section \<open>Filtering (app.js, \<^verbatim>\<open>applyFilters\<close>)\<close>

record filters =
  search :: string
  currency :: string
  purpose :: string
  favoritesOnly :: bool

text \<open>
  \<^verbatim>\<open>s.toLowerCase()\<close>. A string is a list of code units below 256, that is of the characters
  U+0000 to U+00FF. Among them JavaScript maps A to Z (65 to 90) and the capitals U+00C0 to
  U+00DE except the multiplication sign U+00D7 to the character 32 places further, and leaves every
  other one as it is. Strings with code units from 256 on are outside the type.
\<close>

definition lower_char :: "char \<Rightarrow> char" where
  "lower_char c =
     (let n = (of_char c :: nat)
      in if (65 \<le> n \<and> n \<le> 90) \<or> (192 \<le> n \<and> n \<le> 214) \<or> (216 \<le> n \<and> n \<le> 222)
         then char_of (n + 32) else c)"

definition toLowerCase :: "string \<Rightarrow> string" where
  "toLowerCase s = map lower_char s"

text \<open>\<^verbatim>\<open>s.includes(t)\<close>: \<open>t\<close> starts at some position of \<open>s\<close>.\<close>

fun includes_str :: "string \<Rightarrow> string \<Rightarrow> bool" where
  "includes_str [] t = (t = [])"
| "includes_str (c # cs) t = (startsWith (c # cs) t \<or> includes_str cs t)"

text \<open>
  \<^verbatim>\<open>searchableFields.some((field) => field && field.toLowerCase().includes(searchTerm))\<close>:
  a falsy field does not match; a truthy field that is not a string has no \<^verbatim>\<open>toLowerCase\<close>, and
  the call throws; \<^verbatim>\<open>some\<close> stops at the first match.
\<close>

fun some_field :: "string \<Rightarrow> jsval list \<Rightarrow> exn + bool" where
  "some_field searchTerm [] = Inr False"
| "some_field searchTerm (field # others) =
     (if \<not> truthy field then some_field searchTerm others
      else case field of
             JStr s \<Rightarrow> if includes_str (toLowerCase s) searchTerm then Inr True
                       else some_field searchTerm others
           | _ \<Rightarrow> Inl TypeError)"

fun read_props :: "jsval \<Rightarrow> string list \<Rightarrow> exn + jsval list" where
  "read_props v [] = Inr []"
| "read_props v (k # ks) =
     bind_ex (read_prop v k) (\<lambda>x. bind_ex (read_props v ks) (\<lambda>xs. Inr (x # xs)))"

text \<open>The callback of \<^verbatim>\<open>allAccounts.filter\<close>, for an array \<^verbatim>\<open>favorites\<close> with elements \<open>favs\<close>.\<close>

definition account_passes :: "filters \<Rightarrow> jsval list \<Rightarrow> jsval \<Rightarrow> exn + bool" where
  "account_passes currentFilters favs account =
     bind_ex (if search currentFilters \<noteq> [] then
                bind_ex (read_props account
                           [''bank'', ''title'', ''acc_no'', ''iban'', ''purpose'', ''note''])
                  (some_field (toLowerCase (search currentFilters)))
              else Inr True) (\<lambda>matchesSearch.
     if \<not> matchesSearch then Inr False
     else bind_ex (if currency currentFilters \<noteq> ''all'' then
                     bind_ex (read_prop account ''currency'') (\<lambda>c.
                       Inr (strict_equals c (JStr (currency currentFilters))))
                   else Inr True) (\<lambda>currencyOk.
     if \<not> currencyOk then Inr False
     else bind_ex (if purpose currentFilters \<noteq> ''all'' then
                     bind_ex (read_prop account ''purpose'') (\<lambda>p.
                       Inr (strict_equals p (JStr (purpose currentFilters))))
                   else Inr True) (\<lambda>purposeOk.
     if \<not> purposeOk then Inr False
     else bind_ex (if favoritesOnly currentFilters then
                     bind_ex (read_prop account ''id'') (\<lambda>accountId. Inr (isFavorite favs accountId))
                   else Inr True) (\<lambda>favoriteOk.
     Inr favoriteOk))))"

text \<open>\<^verbatim>\<open>xs.filter(f)\<close> for a callback that may throw.\<close>

fun filter_ex :: "('a \<Rightarrow> exn + bool) \<Rightarrow> 'a list \<Rightarrow> exn + 'a list" where
  "filter_ex f [] = Inr []"
| "filter_ex f (x # xs) =
     bind_ex (f x) (\<lambda>keep. bind_ex (filter_ex f xs) (\<lambda>ys. Inr (if keep then x # ys else ys)))"

text \<open>
  \<^verbatim>\<open>applyFilters()\<close>: the result is the value assigned to \<^verbatim>\<open>filteredAccounts\<close>, which is then
  rendered.
\<close>

definition applyFilters :: "filters \<Rightarrow> jsval list \<Rightarrow> jsval list \<Rightarrow> exn + jsval list" where
  "applyFilters currentFilters favs allAccounts =
     filter_ex (account_passes currentFilters favs) allAccounts"

section \<open>Notions used in the statements\<close>

text \<open>Whether the next access to the store throws.\<close>

definition throws_next :: "storage \<Rightarrow> bool" where
  "throws_next s = (case faults s of [] \<Rightarrow> False | b # bs \<Rightarrow> b)"

text \<open>The number of accesses that are still scheduled to throw.\<close>

definition pending :: "storage \<Rightarrow> nat" where
  "pending s = length (filter id (faults s))"

text \<open>
  A computation stays within the schedule: it throws only when an access threw, and it never adds
  a fault.
\<close>

definition budget :: "'a io \<Rightarrow> bool" where
  "budget m = (\<forall>s. case m s of (Inl e, s') \<Rightarrow> pending s' < pending s
                              | (Inr x, s') \<Rightarrow> pending s' \<le> pending s)"

text \<open>The store records the current schema version.\<close>

definition recorded :: "storage \<Rightarrow> bool" where
  "recorded s = (map_of (items s) VERSION_KEY = Some APP_VERSION)"

text \<open>The store holds \<open>a\<close> under the theme key and \<open>b\<close> under the favorites key.\<close>

definition prefs :: "string option \<Rightarrow> string option \<Rightarrow> storage \<Rightarrow> bool" where
  "prefs a b s = (map_of (items s) THEME_KEY = a \<and> map_of (items s) FAVORITES_KEY = b)"

definition keeps :: "string option \<Rightarrow> string option \<Rightarrow> 'a io \<Rightarrow> bool" where
  "keeps a b m = (\<forall>s r s'. prefs a b s \<longrightarrow> m s = (r, s') \<longrightarrow> prefs a b s')"

text \<open>The default theme the configuration asks for, given the system preference.\<close>

definition configured_default :: "string \<Rightarrow> bool \<Rightarrow> string" where
  "configured_default default_theme systemPrefersDark =
     (if default_theme = ''system'' then (if systemPrefersDark then ''dark'' else ''light'')
      else default_theme)"

text \<open>
  Normalization as a table: for each field of the account, the keys of the raw record in the order
  in which they are tried, and the default. \<open>first_truthy\<close> picks the first truthy value.
\<close>

fun first_truthy :: "jsval list \<Rightarrow> jsval \<Rightarrow> jsval" where
  "first_truthy [] d = d"
| "first_truthy (v # vs) d = (if truthy v then v else first_truthy vs d)"

definition priority :: "string \<Rightarrow> (string \<times> string list \<times> jsval) list" where
  "priority rnd =
     [(''id'', [''id'', ''ID''], JStr rnd),
      (''bank'', [''Bank'', ''bank''], JStr ''Unknown Bank''),
      (''title'', [''Title'', ''title''], JStr ''Account''),
      (''acc_no'', [''acc_no'', ''acct_no'', ''account_number''], JStr []),
      (''iban'', [''iban'', ''IBAN''], JStr []),
      (''currency'', [''currency'', ''Currency''], JStr ''PKR''),
      (''purpose'', [''purpose'', ''Purpose''], JStr ''General''),
      (''note'', [''note'', ''Note''], JStr []),
      (''logo'', [''logo''], JNull)]"

text \<open>The eight fields that the data model declares as strings (\<open>acc_no\<close> is the account number).\<close>

definition declared_fields :: "string list" where
  "declared_fields =
     [''id'', ''bank'', ''title'', ''acc_no'', ''iban'', ''currency'', ''purpose'', ''note'']"

text \<open>Every truthy value of a raw record is a string.\<close>

definition strings_only :: "jsval \<Rightarrow> bool" where
  "strings_only raw =
     (case raw of
        JObj kvs \<Rightarrow> list_all (\<lambda>kv. \<not> truthy (snd kv) \<or> is_string (snd kv)) kvs
      | _ \<Rightarrow> True)"

text \<open>A canonical account: the eight declared fields are present and are strings.\<close>

definition canonical :: "jsval \<Rightarrow> bool" where
  "canonical a = (\<not> nullish a \<and> list_all (\<lambda>k. is_string (prop_of a k)) declared_fields)"

text \<open>
  What the filter needs of an account: it is neither \<^verbatim>\<open>null\<close> nor \<^verbatim>\<open>undefined\<close>, none of its
  six searchable fields is a truthy value other than a string, and its id is a primitive. Every
  canonical account is such.
\<close>

definition filterable :: "jsval \<Rightarrow> bool" where
  "filterable a =
     (\<not> nullish a
      \<and> list_all (\<lambda>k. \<not> truthy (prop_of a k) \<or> is_string (prop_of a k))
           [''bank'', ''title'', ''acc_no'', ''iban'', ''purpose'', ''note'']
      \<and> primitive (prop_of a ''id''))"









text \<open>
  A load failure: the fetch is rejected, the response is not ok, its body is not JSON, or the
  parsed body is not an array.
\<close>

definition load_fails :: "(string \<Rightarrow> exn + jsval) \<Rightarrow> exn + response \<Rightarrow> bool" where
  "load_fails parse fetched =
     (case fetched of
        Inl e \<Rightarrow> True
      | Inr response \<Rightarrow>
          \<not> ok response \<or> (case parse (body response) of Inl e \<Rightarrow> True | Inr data \<Rightarrow> \<not> isArray data))"


section \<open>The store: faults are the only source of exceptions\<close>

text \<open>
  Every access consumes one entry of the schedule, and the migration throws only where an access
  threw: the exceptions of \<^verbatim>\<open>JSON.parse\<close> and the \<^verbatim>\<open>throw\<close> of the favorites check are
  caught where they are raised. So each block of the migration stays within the schedule.
\<close>

lemma budgetD_Inl: "budget m \<Longrightarrow> m s = (Inl e, s') \<Longrightarrow> pending s' < pending s"
  unfolding budget_def by (drule spec[of _ s]) simp

lemma budgetD_Inr: "budget m \<Longrightarrow> m s = (Inr x, s') \<Longrightarrow> pending s' \<le> pending s"
  unfolding budget_def by (drule spec[of _ s]) simp

lemma budgetI:
  assumes "\<And>s e s'. m s = (Inl e, s') \<Longrightarrow> pending s' < pending s"
    and "\<And>s x s'. m s = (Inr x, s') \<Longrightarrow> pending s' \<le> pending s"
  shows "budget m"
  unfolding budget_def using assms by (auto split: prod.splits sum.splits)

lemma budget_return: "budget (return_io x)"
  by (simp add: budget_def return_io_def)

lemma budget_access: "budget access"
  by (auto simp: budget_def access_def pending_def split: list.splits)

lemma budget_bind:
  assumes "budget m" and "\<And>x. budget (f x)"
  shows "budget (bind_io m f)"
proof (rule budgetI)
  fix s e s' assume "bind_io m f s = (Inl e, s')"
  then show "pending s' < pending s"
    using budgetD_Inl[OF assms(1)] budgetD_Inr[OF assms(1)] budgetD_Inl[OF assms(2)]
    by (fastforce simp: bind_io_def split: prod.splits sum.splits)
next
  fix s x s' assume "bind_io m f s = (Inr x, s')"
  then show "pending s' \<le> pending s"
    using budgetD_Inr[OF assms(1)] budgetD_Inr[OF assms(2)]
    by (fastforce simp: bind_io_def split: prod.splits sum.splits)
qed

lemma budget_try_catch:
  assumes "budget m" and "\<And>e. budget (h e)"
  shows "budget (try_catch m h)"
proof (rule budgetI)
  fix s e s' assume "try_catch m h s = (Inl e, s')"
  then show "pending s' < pending s"
    using budgetD_Inl[OF assms(1)] budgetD_Inl[OF assms(2)]
    by (fastforce simp: try_catch_def split: prod.splits sum.splits)
next
  fix s x s' assume "try_catch m h s = (Inr x, s')"
  then show "pending s' \<le> pending s"
    using budgetD_Inr[OF assms(1)] budgetD_Inl[OF assms(1)] budgetD_Inr[OF assms(2)]
    by (fastforce simp: try_catch_def split: prod.splits sum.splits)
qed

lemma budget_pure: "budget (\<lambda>s. (Inr (g s), s\<lparr>items := h s\<rparr>))"
  by (simp add: budget_def pending_def)

lemma budget_pure': "budget (\<lambda>s. (Inr (g s), s))"
  by (simp add: budget_def pending_def)

lemma budget_getItem: "budget (getItem k)"
  unfolding getItem_def by (intro budget_bind budget_access budget_pure')

lemma budget_setItem: "budget (setItem k v)"
  unfolding setItem_def by (intro budget_bind budget_access budget_pure)

lemma budget_removeItem: "budget (removeItem k)"
  unfolding removeItem_def by (intro budget_bind budget_access budget_pure)

lemma budget_keys: "budget keys"
  unfolding keys_def by (intro budget_bind budget_access budget_pure')

lemma budget_forEach: "(\<And>x. budget (f x)) \<Longrightarrow> budget (forEach f xs)"
  by (induction xs) (auto intro: budget_bind budget_return)

lemma budget_showToast: "budget (showToast a b)"
  by (simp add: showToast_def budget_return)

lemma budget_if: "budget a \<Longrightarrow> budget b \<Longrightarrow> budget (if c then a else b)"
  by simp


lemma budget_migrate_v1: "budget (migrate_v1 parse theme favs)"
proof -
  have inner: "budget (try_catch
                         (bind_io (lift_io (parse jtext)) (\<lambda>favorites.
                            if isArray favorites then return_io ()
                            else throw_io (Error ''Invalid favorites format'')))
                         (\<lambda>error. removeItem FAVORITES_KEY))" for jtext
  proof (rule budgetI)
    fix s e s'
    assume "try_catch (bind_io (lift_io (parse jtext)) (\<lambda>favorites.
                if isArray favorites then return_io ()
                else throw_io (Error ''Invalid favorites format'')))
              (\<lambda>error. removeItem FAVORITES_KEY) s = (Inl e, s')"
    then have "removeItem FAVORITES_KEY s = (Inl e, s')"
      by (auto simp: try_catch_def bind_io_def lift_io_def return_io_def throw_io_def
               split: sum.splits if_splits)
    then show "pending s' < pending s"
      by (rule budgetD_Inl[OF budget_removeItem])
  next
    fix s x s'
    assume "try_catch (bind_io (lift_io (parse jtext)) (\<lambda>favorites.
                if isArray favorites then return_io ()
                else throw_io (Error ''Invalid favorites format'')))
              (\<lambda>error. removeItem FAVORITES_KEY) s = (Inr x, s')"
    then have "s' = s \<or> removeItem FAVORITES_KEY s = (Inr x, s')"
      by (auto simp: try_catch_def bind_io_def lift_io_def return_io_def throw_io_def
               split: sum.splits if_splits)
    then show "pending s' \<le> pending s"
      using budgetD_Inr[OF budget_removeItem] by auto
  qed
  show ?thesis
    unfolding migrate_v1_def
    by (intro budget_bind budget_if budget_return budget_removeItem budget_forEach budget_getItem)
       (simp_all add: budget_return inner split: option.splits)
qed

lemma budget_migration_main: "budget (migration_main parse)"
  unfolding migration_main_def
  by (intro budget_bind budget_if budget_return budget_setItem budget_getItem
            budget_showToast budget_migrate_v1)

lemma budget_restore_favorites:
  "budget (try_catch
                (case favs of
                   None \<Rightarrow> return_io ()
                 | Some text \<Rightarrow>
                     if text = [] then return_io ()
                     else bind_io (lift_io (parse text)) (\<lambda>_. setItem FAVORITES_KEY text))
                (\<lambda>e. return_io ()))"
proof (rule budgetI)
  fix s e s'
  assume "try_catch (case favs of None \<Rightarrow> return_io ()
                 | Some text \<Rightarrow>
                     if text = [] then return_io ()
                     else bind_io (lift_io (parse text)) (\<lambda>_. setItem FAVORITES_KEY text))
                (\<lambda>e. return_io ()) s = (Inl e, s')"
  then have False
    by (auto simp: try_catch_def return_io_def split: prod.splits sum.splits)
  then show "pending s' < pending s" ..
next
  fix s x s'
  assume a: "try_catch (case favs of None \<Rightarrow> return_io ()
                 | Some text \<Rightarrow>
                     if text = [] then return_io ()
                     else bind_io (lift_io (parse text)) (\<lambda>_. setItem FAVORITES_KEY text))
                (\<lambda>e. return_io ()) s = (Inr x, s')"
  then have "s' = s \<or> (\<exists>text r. setItem FAVORITES_KEY text s = (r, s'))"
    by (auto simp: try_catch_def bind_io_def lift_io_def return_io_def
             split: option.splits sum.splits if_splits prod.splits)
  then show "pending s' \<le> pending s"
    using budgetD_Inr[OF budget_setItem] budgetD_Inl[OF budget_setItem]
    by (metis le_refl less_imp_le_nat old.sum.exhaust)
qed

lemma budget_safe_fallback: "budget (safe_fallback parse)"
  unfolding safe_fallback_def
  by (intro budget_bind budget_getItem budget_keys budget_forEach budget_if budget_removeItem
            budget_return budget_restore_favorites budget_setItem budget_showToast)
     (simp_all add: budget_return budget_setItem split: option.splits)

section \<open>Migration: a normal return records the version\<close>

text \<open>
  The main path ends with the write of the version (or found the current version stored), and so
  does the fallback. With at most one throwing access the fallback meets no fault.
\<close>

lemma bind_io_Inr:
  "bind_io m f s = (Inr y, s') \<Longrightarrow> \<exists>x s1. m s = (Inr x, s1) \<and> f x s1 = (Inr y, s')"
  by (auto simp: bind_io_def split: prod.splits sum.splits)

lemma access_items: "access s = (r, s') \<Longrightarrow> items s' = items s"
  by (auto simp: access_def split: list.splits if_splits)

lemma getItem_Inr:
  "getItem k s = (Inr v, s') \<Longrightarrow> v = map_of (items s) k \<and> items s' = items s"
  by (auto simp: getItem_def dest!: bind_io_Inr access_items)

lemma setItem_Inr:
  "setItem k v s = (Inr u, s') \<Longrightarrow> items s' = AList.update k v (items s)"
  by (auto simp: setItem_def dest!: bind_io_Inr access_items)

lemma set_version_recorded:
  "setItem VERSION_KEY APP_VERSION s = (Inr u, s1) \<Longrightarrow> showToast a b s1 = (Inr u', s') \<Longrightarrow> recorded s'"
  by (auto simp: showToast_def return_io_def recorded_def update_conv' dest!: setItem_Inr)

lemma migration_main_recorded:
  assumes "migration_main parse s = (Inr u, s')"
  shows "recorded s'"
proof -
  from assms obtain sv s1 where
    g: "getItem VERSION_KEY s = (Inr sv, s1)" and
    rest: "(if \<not> truthy_item sv \<or> sv = Some APP_VERSION then
         (if \<not> truthy_item sv then setItem VERSION_KEY APP_VERSION else return_io ())
       else
         bind_io (getItem THEME_KEY) (\<lambda>theme.
         bind_io (getItem FAVORITES_KEY) (\<lambda>favs.
         bind_io (if (case sv of Some v \<Rightarrow> str_less v ''2.0'' | None \<Rightarrow> False)
                  then migrate_v1 parse theme favs else return_io ()) (\<lambda>_.
         bind_io (setItem VERSION_KEY APP_VERSION) (\<lambda>_.
         showToast ''App updated! Your preferences have been preserved.'' ''success''))))) s1
       = (Inr u, s')"
    unfolding migration_main_def by (blast dest: bind_io_Inr)
  from g have sv: "sv = map_of (items s) VERSION_KEY" and it: "items s1 = items s"
    by (auto dest: getItem_Inr)
  show ?thesis
  proof (cases "\<not> truthy_item sv \<or> sv = Some APP_VERSION")
    case True
    show ?thesis
    proof (cases "truthy_item sv")
      case False
      with rest have "setItem VERSION_KEY APP_VERSION s1 = (Inr u, s')" by simp
      then show ?thesis by (auto simp: recorded_def update_conv' dest!: setItem_Inr)
    next
      case t: True
      with True rest have "s' = s1" "sv = Some APP_VERSION" by (auto simp: return_io_def)
      with sv it show ?thesis by (simp add: recorded_def)
    qed
  next
    case False
    with rest show ?thesis
      by (auto dest!: bind_io_Inr dest: set_version_recorded)
  qed
qed

lemma safe_fallback_recorded:
  assumes "safe_fallback parse s = (Inr u, s')"
  shows "recorded s'"
  using assms unfolding safe_fallback_def
  by (auto dest!: bind_io_Inr dest: set_version_recorded)

lemma migrate_recorded:
  assumes "migrateLocalStorageData parse s = (Inr u, s')"
  shows "recorded s'"
  using assms unfolding migrateLocalStorageData_def try_catch_def
  by (auto split: prod.splits sum.splits intro: migration_main_recorded safe_fallback_recorded)

lemma migrate_one_fault:
  assumes "pending s \<le> 1"
  shows "\<exists>s'. migrateLocalStorageData parse s = (Inr (), s') \<and> recorded s'"
proof -
  obtain r s' where m: "migrateLocalStorageData parse s = (r, s')" by fastforce
  have "\<exists>u. r = Inr u"
  proof (cases "migration_main parse s")
    case (Pair r1 s1)
    show ?thesis
    proof (cases r1)
      case (Inr u)
      with Pair m show ?thesis by (simp add: migrateLocalStorageData_def try_catch_def)
    next
      case (Inl e)
      with Pair have "pending s1 < pending s"
        using budgetD_Inl[OF budget_migration_main] by blast
      with assms have z: "pending s1 = 0" by simp
      from Inl Pair m have f: "safe_fallback parse s1 = (r, s')"
        by (simp add: migrateLocalStorageData_def try_catch_def)
      show ?thesis
      proof (cases r)
        case (Inl e')
        with f z show ?thesis using budgetD_Inl[OF budget_safe_fallback] by fastforce
      next
        case (Inr u)
        then show ?thesis by blast
      qed
    qed
  qed
  with m show ?thesis using migrate_recorded by fastforce
qed

section \<open>Migration: the theme and favorites entries\<close>

text \<open>
  Outside the block for versions before 2.0, the only writes to the theme and favorites entries
  are those of the fallback, which writes back the values it has just read.
\<close>

lemma keepsD: "keeps a b m \<Longrightarrow> prefs a b s \<Longrightarrow> m s = (r, s') \<Longrightarrow> prefs a b s'"
  unfolding keeps_def by blast

lemma keeps_return: "keeps a b (return_io x)"
  by (simp add: keeps_def return_io_def)

lemma keeps_lift: "keeps a b (lift_io r)"
  by (simp add: keeps_def lift_io_def)

lemma keeps_access: "keeps a b access"
  by (auto simp: keeps_def prefs_def dest: access_items)

lemma keeps_bind:
  assumes "keeps a b m" and "\<And>x. keeps a b (f x)"
  shows "keeps a b (bind_io m f)"
  unfolding keeps_def
proof (intro allI impI)
  fix s r s' assume p: "prefs a b s" and e: "bind_io m f s = (r, s')"
  obtain r1 s1 where m: "m s = (r1, s1)" by fastforce
  with p assms(1) have p1: "prefs a b s1" by (blast dest: keepsD)
  show "prefs a b s'"
  proof (cases r1)
    case (Inl e1)
    with m e p1 show ?thesis by (simp add: bind_io_def)
  next
    case (Inr x)
    with m e have "f x s1 = (r, s')" by (simp add: bind_io_def)
    with p1 assms(2) show ?thesis by (blast dest: keepsD)
  qed
qed

lemma keeps_try_catch:
  assumes "keeps a b m" and "\<And>e. keeps a b (h e)"
  shows "keeps a b (try_catch m h)"
  unfolding keeps_def
proof (intro allI impI)
  fix s r s' assume p: "prefs a b s" and e: "try_catch m h s = (r, s')"
  obtain r1 s1 where m: "m s = (r1, s1)" by fastforce
  with p assms(1) have p1: "prefs a b s1" by (blast dest: keepsD)
  show "prefs a b s'"
  proof (cases r1)
    case (Inr x)
    with m e p1 show ?thesis by (simp add: try_catch_def)
  next
    case (Inl e1)
    with m e have "h e1 s1 = (r, s')" by (simp add: try_catch_def)
    with p1 assms(2) show ?thesis by (blast dest: keepsD)
  qed
qed

lemma keeps_read: "keeps a b (\<lambda>s. (Inr (g s), s))"
  by (simp add: keeps_def)

lemma keeps_getItem: "keeps a b (getItem k)"
  unfolding getItem_def by (intro keeps_bind keeps_access keeps_read)

lemma keeps_keys: "keeps a b keys"
  unfolding keys_def by (intro keeps_bind keeps_access keeps_read)

lemma keeps_showToast: "keeps a b (showToast x y)"
  by (simp add: showToast_def keeps_return)

text \<open>Reading a preference in a state that holds \<open>a\<close> and \<open>b\<close> returns them.\<close>

lemma keeps_bind_theme:
  assumes "keeps a b (f a)"
  shows "keeps a b (bind_io (getItem THEME_KEY) f)"
  unfolding keeps_def
proof (intro allI impI)
  fix s r s' assume p: "prefs a b s" and e: "bind_io (getItem THEME_KEY) f s = (r, s')"
  obtain r1 s1 where m: "getItem THEME_KEY s = (r1, s1)" by fastforce
  with p have p1: "prefs a b s1" using keeps_getItem by (blast dest: keepsD)
  show "prefs a b s'"
  proof (cases r1)
    case (Inl e1)
    with m e p1 show ?thesis by (simp add: bind_io_def)
  next
    case (Inr x)
    with m p have "x = a" by (auto simp: prefs_def dest: getItem_Inr)
    with Inr m e have "f a s1 = (r, s')" by (simp add: bind_io_def)
    with p1 assms show ?thesis by (blast dest: keepsD)
  qed
qed

lemma keeps_bind_favorites:
  assumes "keeps a b (f b)"
  shows "keeps a b (bind_io (getItem FAVORITES_KEY) f)"
  unfolding keeps_def
proof (intro allI impI)
  fix s r s' assume p: "prefs a b s" and e: "bind_io (getItem FAVORITES_KEY) f s = (r, s')"
  obtain r1 s1 where m: "getItem FAVORITES_KEY s = (r1, s1)" by fastforce
  with p have p1: "prefs a b s1" using keeps_getItem by (blast dest: keepsD)
  show "prefs a b s'"
  proof (cases r1)
    case (Inl e1)
    with m e p1 show ?thesis by (simp add: bind_io_def)
  next
    case (Inr x)
    with m p have "x = b" by (auto simp: prefs_def dest: getItem_Inr)
    with Inr m e have "f b s1 = (r, s')" by (simp add: bind_io_def)
    with p1 assms show ?thesis by (blast dest: keepsD)
  qed
qed

lemma keeps_write: 
  assumes "\<And>s. prefs a b s \<Longrightarrow> prefs a b (s\<lparr>items := h s\<rparr>)"
  shows "keeps a b (\<lambda>s. (Inr (), s\<lparr>items := h s\<rparr>))"
  using assms by (auto simp: keeps_def)

lemma keeps_setItem_other:
  "k \<noteq> THEME_KEY \<Longrightarrow> k \<noteq> FAVORITES_KEY \<Longrightarrow> keeps a b (setItem k v)"
  unfolding setItem_def
  by (intro keeps_bind keeps_access keeps_write) (simp add: prefs_def update_conv')

lemma keeps_removeItem_other:
  "k \<noteq> THEME_KEY \<Longrightarrow> k \<noteq> FAVORITES_KEY \<Longrightarrow> keeps a b (removeItem k)"
  unfolding removeItem_def
  by (intro keeps_bind keeps_access keeps_write) (simp add: prefs_def delete_conv')

lemma keeps_setItem_theme: "keeps (Some t) b (setItem THEME_KEY t)"
  unfolding setItem_def
  by (intro keeps_bind keeps_access keeps_write)
     (simp add: prefs_def update_conv' THEME_KEY_def FAVORITES_KEY_def)

lemma keeps_setItem_favorites: "keeps a (Some t) (setItem FAVORITES_KEY t)"
  unfolding setItem_def
  by (intro keeps_bind keeps_access keeps_write)
     (simp add: prefs_def update_conv' THEME_KEY_def FAVORITES_KEY_def)

lemma keeps_forEach: "(\<And>x. keeps a b (f x)) \<Longrightarrow> keeps a b (forEach f xs)"
  by (induction xs) (auto intro: keeps_bind keeps_return)

lemma VERSION_KEY_other: "VERSION_KEY \<noteq> THEME_KEY" "VERSION_KEY \<noteq> FAVORITES_KEY"
  by (simp_all add: VERSION_KEY_def THEME_KEY_def FAVORITES_KEY_def)

lemma keeps_safe_fallback: "keeps a b (safe_fallback parse)"
proof -
  have rm: "keeps a b (if startsWith key ''accounts:'' \<and> key \<notin> set keysToPreserve
                then removeItem key else return_io ())" for key
    by (auto simp: keysToPreserve_def intro: keeps_removeItem_other keeps_return)
  have th: "keeps a b (case a of None \<Rightarrow> return_io ()
              | Some t \<Rightarrow> if valid_theme (Some t) then setItem THEME_KEY t else return_io ())"
    by (auto split: option.splits intro: keeps_return keeps_setItem_theme)
  have fv: "keeps a b (try_catch
                (case b of
                   None \<Rightarrow> return_io ()
                 | Some text \<Rightarrow>
                     if text = [] then return_io ()
                     else bind_io (lift_io (parse text)) (\<lambda>_. setItem FAVORITES_KEY text))
                (\<lambda>e. return_io ()))"
    by (intro keeps_try_catch keeps_return)
       (auto split: option.splits intro!: keeps_return keeps_bind keeps_lift keeps_setItem_favorites)
  show ?thesis
    unfolding safe_fallback_def
    by (intro keeps_bind_theme keeps_bind_favorites keeps_bind keeps_keys keeps_forEach rm th fv
              keeps_setItem_other VERSION_KEY_other keeps_showToast)
qed

lemma keeps_migration_main_newer:
  assumes v: "map_of (items s) VERSION_KEY = Some v" "v \<noteq> APP_VERSION" "\<not> str_less v ''2.0''"
    and p: "prefs a b s" and m: "migration_main parse s = (r, s')"
  shows "prefs a b s'"
proof -
  let ?rest = "\<lambda>sv. bind_io (getItem THEME_KEY) (\<lambda>theme.
         bind_io (getItem FAVORITES_KEY) (\<lambda>favs.
         bind_io (if (case sv of Some v \<Rightarrow> str_less v ''2.0'' | None \<Rightarrow> False)
                  then migrate_v1 parse theme favs else return_io ()) (\<lambda>_.
         bind_io (setItem VERSION_KEY APP_VERSION) (\<lambda>_.
         showToast ''App updated! Your preferences have been preserved.'' ''success''))))"
  have k: "keeps a b (?rest (Some v))"
    using v(3)
    by (auto intro!: keeps_bind keeps_getItem keeps_return keeps_setItem_other keeps_showToast
                     VERSION_KEY_other)
  obtain r1 s1 where g: "getItem VERSION_KEY s = (r1, s1)" by fastforce
  with p have p1: "prefs a b s1" using keeps_getItem by (blast dest: keepsD)
  show ?thesis
  proof (cases r1)
    case (Inl e)
    with g m p1 show ?thesis by (simp add: migration_main_def bind_io_def)
  next
    case (Inr sv)
    with g v(1) have sv: "sv = Some v" by (auto dest: getItem_Inr)
    from v(3) have "v \<noteq> []" by auto
    with sv v(2) Inr g m have "?rest (Some v) s1 = (r, s')"
      by (simp add: migration_main_def bind_io_def)
    with k p1 show ?thesis by (blast dest: keepsD)
  qed
qed

lemma migrate_newer_frame:
  assumes v: "map_of (items s) VERSION_KEY = Some v" "v \<noteq> APP_VERSION" "\<not> str_less v ''2.0''"
    and m: "migrateLocalStorageData parse s = (r, s')"
  shows "map_of (items s') THEME_KEY = map_of (items s) THEME_KEY
       \<and> map_of (items s') FAVORITES_KEY = map_of (items s) FAVORITES_KEY"
proof -
  define a b where "a = map_of (items s) THEME_KEY" and "b = map_of (items s) FAVORITES_KEY"
  then have p: "prefs a b s" by (simp add: prefs_def)
  obtain r1 s1 where mm: "migration_main parse s = (r1, s1)" by fastforce
  with v p have p1: "prefs a b s1" by (rule keeps_migration_main_newer)
  have "prefs a b s'"
  proof (cases r1)
    case (Inr u)
    with mm m p1 show ?thesis by (simp add: migrateLocalStorageData_def try_catch_def)
  next
    case (Inl e)
    with mm m have "safe_fallback parse s1 = (r, s')"
      by (simp add: migrateLocalStorageData_def try_catch_def)
    with p1 show ?thesis using keeps_safe_fallback by (blast dest: keepsD)
  qed
  then show ?thesis by (simp add: prefs_def a_def b_def)
qed

lemma filter_tl_quiet: "filter id fs = [] \<Longrightarrow> filter id (tl fs) = []"
  by (cases fs) (auto split: if_splits)

lemma access_quiet:
  "filter id (faults s) = [] \<Longrightarrow> access s = (Inr (), s\<lparr>faults := tl (faults s)\<rparr>)"
  by (cases s) (auto simp: access_def split: list.splits)

lemma migration_main_newer_quiet:
  assumes v: "map_of (items s) VERSION_KEY = Some v" "v \<noteq> APP_VERSION" "\<not> str_less v ''2.0''"
    and q: "pending s = 0"
  shows "\<exists>s'. migration_main parse s = (Inr (), s')
           \<and> items s' = AList.update VERSION_KEY APP_VERSION (items s)"
proof -
  from v(3) have ne: "v \<noteq> []" by auto
  from q have f: "filter id (faults s) = []" by (simp add: pending_def)
  show ?thesis
    using v ne f
    by (simp add: migration_main_def bind_io_def getItem_def setItem_def showToast_def return_io_def
          access_quiet filter_tl_quiet)
qed

section \<open>Theme, favorites, normalization and filtering: auxiliary facts\<close>

lemma access_result:
  "access s = (if throws_next s then Inl StorageError else Inr (), s\<lparr>faults := tl (faults s)\<rparr>)"
  by (cases s) (auto simp: access_def throws_next_def split: list.splits)

lemma getItem_result:
  "getItem k s = (if throws_next s then Inl StorageError else Inr (map_of (items s) k),
                  s\<lparr>faults := tl (faults s)\<rparr>)"
  by (simp add: getItem_def bind_io_def access_result)

lemma initializeTheme_eval:
  "initializeTheme d p s =
     (Inr (if throws_next s then ''light''
           else case map_of (items s) THEME_KEY of
                  None \<Rightarrow> (if d = ''system'' then (if p then ''dark'' else ''light'') else d)
                | Some t \<Rightarrow> if t \<noteq> [] then t
                            else (if d = ''system'' then (if p then ''dark'' else ''light'') else d)),
      s\<lparr>faults := tl (faults s)\<rparr>)"
  by (simp add: initializeTheme_def try_catch_def bind_io_def getItem_result return_io_def Let_def)

lemma loadFavorites_eval:
  "loadFavorites parse s =
     (Inr (if throws_next s then JArr []
           else case map_of (items s) FAVORITES_KEY of
                  None \<Rightarrow> JArr []
                | Some t \<Rightarrow> if t = [] then JArr []
                            else (case parse t of Inl e \<Rightarrow> JArr [] | Inr v \<Rightarrow> v)),
      s\<lparr>faults := tl (faults s)\<rparr>)"
  by (auto simp: loadFavorites_def try_catch_def bind_io_def getItem_result return_io_def lift_io_def
           split: option.splits sum.splits)

lemma strict_equals_JStr [simp]: "strict_equals x (JStr a) \<longleftrightarrow> x = JStr a"
  by (cases x) auto

lemma strict_equals_primitive: "primitive v \<Longrightarrow> strict_equals x v \<longleftrightarrow> x = v"
  by (cases v; cases x) auto

lemma indexOf_None: "primitive v \<Longrightarrow> indexOf xs v = None \<Longrightarrow> v \<notin> set xs"
  by (induction xs) (auto simp: strict_equals_primitive split: if_splits)

lemma distinct_remove_at: "distinct xs \<Longrightarrow> distinct (take i xs @ drop (Suc i) xs)"
  using set_take_disj_set_drop_if_distinct[of xs i "Suc i"] by simp

lemma and_then_favorites:
  assumes "fst (snd r) = F" and "\<And>st. fst st = F \<Longrightarrow> fst (snd (rest st)) = F"
  shows "fst (snd (and_then r rest)) = F"
  using assms by (cases "fst r") (simp_all add: and_then_def)

lemma on_page_favorites: "fst (snd (on_page call st)) = fst st"
  by (simp add: on_page_def split: prod.splits)

lemma on_store_favorites: "fst (snd (on_store act st)) = fst st"
  by (simp add: on_store_def split: prod.splits)

lemma toggleFavorite_favorites:
  "fst (snd (toggleFavorite stringify page only_favorites a (JArr xs, sp)))
   = JArr (case indexOf xs a of Some i \<Rightarrow> take i xs @ drop (Suc i) xs | None \<Rightarrow> xs @ [a])"
  unfolding toggleFavorite_def Let_def fst_conv snd_conv jsval.case
  by (intro and_then_favorites) (simp_all add: on_page_favorites on_store_favorites)

lemma toggleFavorite_distinct:
  assumes "distinct xs" and "primitive a"
  shows "\<exists>ys sp'. snd (toggleFavorite stringify page only_favorites a (JArr xs, sp)) = (JArr ys, sp')
                  \<and> distinct ys"
proof (cases "indexOf xs a")
  case None
  with assms(2) have "a \<notin> set xs" by (rule indexOf_None)
  with None assms(1) toggleFavorite_favorites[where stringify = stringify and page = page
      and only_favorites = only_favorites and a = a and xs = xs and sp = sp]
  show ?thesis by (cases "snd (toggleFavorite stringify page only_favorites a (JArr xs, sp))") simp
next
  case (Some i)
  with distinct_remove_at[OF assms(1), of i]
    toggleFavorite_favorites[where stringify = stringify and page = page
      and only_favorites = only_favorites and a = a and xs = xs and sp = sp]
  show ?thesis by (cases "snd (toggleFavorite stringify page only_favorites a (JArr xs, sp))") simp
qed

lemma toggle_all_distinct:
  "distinct xs \<Longrightarrow> list_all primitive ids \<Longrightarrow>
   \<exists>ys. fst (toggle_all stringify page only_favorites ids (JArr xs, sp)) = JArr ys \<and> distinct ys"
proof (induction ids arbitrary: xs sp)
  case Nil
  then show ?case by simp
next
  case (Cons a ids)
  from Cons.prems have pa: "primitive a" and pi: "list_all primitive ids" by simp_all
  from toggleFavorite_distinct[OF Cons.prems(1) pa, where stringify = stringify and page = page
      and only_favorites = only_favorites and sp = sp]
  obtain ys sp' where
    t: "snd (toggleFavorite stringify page only_favorites a (JArr xs, sp)) = (JArr ys, sp')"
    and d: "distinct ys" by blast
  from Cons.IH[OF d pi, where sp = sp'] t show ?case by simp
qed

lemma truthy_not_nullish: "truthy v \<Longrightarrow> \<not> nullish v"
  by (cases v) auto

lemma or_js_not_nullish: "\<not> nullish b \<Longrightarrow> \<not> nullish (or_js a b)"
  by (simp add: or_js_def truthy_not_nullish)

lemma or_js_string: "\<not> truthy a \<or> is_string a \<Longrightarrow> is_string b \<Longrightarrow> is_string (or_js a b)"
  by (auto simp: or_js_def)

lemma strings_only_prop: "strings_only raw \<Longrightarrow> \<not> truthy (prop_of raw k) \<or> is_string (prop_of raw k)"
proof (cases raw)
  case (JObj kvs)
  assume "strings_only raw"
  with JObj have a: "\<forall>kv \<in> set kvs. \<not> truthy (snd kv) \<or> is_string (snd kv)"
    by (simp add: strings_only_def list_all_iff)
  show ?thesis
  proof (cases "map_of kvs k")
    case None
    with JObj show ?thesis by simp
  next
    case (Some v)
    then have "(k, v) \<in> set kvs" by (rule map_of_SomeD)
    with a Some JObj show ?thesis by fastforce
  qed
qed simp_all





lemma toLowerCase_Nil [simp]: "toLowerCase s = [] \<longleftrightarrow> s = []"
  by (simp add: toLowerCase_def)

lemma toLowerCase_empty [simp]: "toLowerCase [] = []"
  by (simp add: toLowerCase_def)





















lemma canonical_filterable: "canonical a \<Longrightarrow> filterable a"
  by (auto simp: canonical_def filterable_def declared_fields_def elim!: is_string.elims)


lemma filter_ex_total: "(\<And>x. x \<in> set xs \<Longrightarrow> f x = Inr (P x)) \<Longrightarrow> filter_ex f xs = Inr (filter P xs)"
  by (induction xs) (simp_all add: bind_ex_def)

lemma parse_two_a: "JSON_parse ''[\"a\",\"a\"]'' = Inr (JArr [JStr ''a'', JStr ''a''])"
  by code_simp

lemma parse_object: "JSON_parse ''{\"a\":1}'' = Inr (JObj [(''a'', JNum 1)])"
  by code_simp

lemma parse_garbage: "JSON_parse ''not json'' = Inl SyntaxError"
  by code_simp

lemma normalizeAccount_canonical:
  assumes "\<not> nullish raw" and "strings_only raw"
  shows "\<exists>a. normalizeAccount rnd raw = Inr a \<and> canonical a"
  using assms strings_only_prop[of raw]
  by (simp add: normalizeAccount_def canonical_def declared_fields_def or_js_string)

lemma loadData_failure:
  assumes "load_fails parse fetched"
  shows "\<exists>accs. loadData parse rnd fetched = Inr accs \<and> length accs = 3 \<and> list_all canonical accs"
proof -
  have "loadData parse rnd fetched = map_normalize normalizeAccount rnd 0 getSampleData"
    using assms
    by (auto simp: load_fails_def loadData_def bind_ex_def split: sum.splits jsval.splits)
  then show ?thesis
    by (simp add: getSampleData_def normalizeAccount_def bind_ex_def or_js_def canonical_def
                declared_fields_def)
qed

section \<open>The claims\<close>

subsection \<open>C1: the theme loaded at startup\<close>

text \<open>
  Claim C1 says that a stored theme is returned only if it is \<^verbatim>\<open>"light"\<close> or \<^verbatim>\<open>"dark"\<close> and that
  any other non-empty stored value falls back to the configured default. The code does not check
  the stored value: with \<^verbatim>\<open>"blue"\<close> stored and the default \<^verbatim>\<open>"light"\<close>, the theme is
  \<^verbatim>\<open>"blue"\<close>, also when the migration has run first, as it does at startup.
\<close>

theorem initializeTheme_keeps_invalid_stored_value:
  "fst (initializeTheme DEFAULT_THEME False \<lparr>items = [(THEME_KEY, ''blue'')], faults = []\<rparr>) = Inr ''blue''
   \<and> fst (bind_io (migrateLocalStorageData JSON_parse) (\<lambda>_. initializeTheme DEFAULT_THEME False)
            \<lparr>items = [(THEME_KEY, ''blue'')], faults = []\<rparr>) = Inr ''blue''
   \<and> ''blue'' \<notin> set [''light'', ''dark''] \<and> configured_default DEFAULT_THEME False = ''light''"
proof -
  have "migrateLocalStorageData JSON_parse \<lparr>items = [(THEME_KEY, ''blue'')], faults = []\<rparr>
        = (Inr (), \<lparr>items = [(THEME_KEY, ''blue''), (VERSION_KEY, APP_VERSION)], faults = []\<rparr>)"
    by (simp add: migrateLocalStorageData_def migration_main_def try_catch_def bind_io_def
          getItem_def setItem_def access_def return_io_def THEME_KEY_def VERSION_KEY_def)
  then show ?thesis
    by (simp add: bind_io_def initializeTheme_eval throws_next_def configured_default_def
          DEFAULT_THEME_def THEME_KEY_def VERSION_KEY_def)
qed

text \<open>
  Claim C1 as amended: for every stored theme value, loading the theme returns the stored value
  whenever it is non-empty, whatever its text; it falls back to the configured default when the key
  is absent or holds the empty string, and to \<^verbatim>\<open>"light"\<close> when reading the store throws.
\<close>

theorem initializeTheme_result:
  "(\<not> throws_next s \<and> map_of (items s) THEME_KEY = Some t \<and> t \<noteq> []
      \<longrightarrow> fst (initializeTheme d p s) = Inr t)
   \<and> (\<not> throws_next s \<and> (map_of (items s) THEME_KEY = None \<or> map_of (items s) THEME_KEY = Some [])
      \<longrightarrow> fst (initializeTheme d p s) = Inr (configured_default d p))
   \<and> (throws_next s \<longrightarrow> fst (initializeTheme d p s) = Inr ''light'')"
  by (auto simp: initializeTheme_eval configured_default_def)

theorem initializeTheme_result_witness:
  "fst (initializeTheme ''system'' True \<lparr>items = [(THEME_KEY, ''light'')], faults = []\<rparr>) = Inr ''light''
   \<and> fst (initializeTheme ''system'' True \<lparr>items = [(FAVORITES_KEY, ''[]'')], faults = []\<rparr>) = Inr ''dark''
   \<and> fst (initializeTheme ''system'' True \<lparr>items = [(THEME_KEY, ''dark'')], faults = [True]\<rparr>) = Inr ''light''"
  using initializeTheme_result[of "\<lparr>items = [(THEME_KEY, ''light'')], faults = []\<rparr>" "''light''" "''system''" True]
        initializeTheme_result[of "\<lparr>items = [(FAVORITES_KEY, ''[]'')], faults = []\<rparr>" "''x''" "''system''" True]
        initializeTheme_result[of "\<lparr>items = [(THEME_KEY, ''dark'')], faults = [True]\<rparr>" "''x''" "''system''" True]
  by (simp add: throws_next_def configured_default_def THEME_KEY_def FAVORITES_KEY_def)

subsection \<open>C2: uniqueness of the favorites\<close>

text \<open>
  Claim C2 says that after \<^verbatim>\<open>loadFavorites\<close> from any stored value each id appears at most once.
  \<^verbatim>\<open>loadFavorites\<close> returns the stored array as parsed: a stored \<^verbatim>\<open>["a","a"]\<close> gives a sequence
  with \<^verbatim>\<open>"a"\<close> twice.
\<close>

theorem loadFavorites_keeps_duplicates:
  "fst (loadFavorites JSON_parse \<lparr>items = [(FAVORITES_KEY, ''[\"a\",\"a\"]'')], faults = []\<rparr>)
     = Inr (JArr [JStr ''a'', JStr ''a''])
   \<and> \<not> distinct [JStr ''a'', JStr ''a'']"
  by (simp add: loadFavorites_eval throws_next_def parse_two_a)

text \<open>
  Claim C2 as amended: after every run of \<^verbatim>\<open>toggleFavorite\<close> calls with ids that are
  primitives (strings, in the data model), started with a duplicate-free array in \<^verbatim>\<open>favorites\<close>,
  the variable holds a duplicate-free array, whatever the store, the serialization, the toast and
  the page updates of the calls do or throw (a call may end with an exception; the array is changed
  before anything can throw); \<^verbatim>\<open>loadFavorites\<close> gives the empty sequence when the key is absent,
  and otherwise the stored array as parsed, duplicates included.
\<close>

theorem favorites_unique_from_unique:
  "(distinct xs \<and> list_all primitive ids
        \<longrightarrow> (\<exists>ys. fst (toggle_all stringify page only_favorites ids (JArr xs, s0, p0)) = JArr ys
                  \<and> distinct ys))
   \<and> (map_of (items s) FAVORITES_KEY = None \<longrightarrow> fst (loadFavorites parse s) = Inr (JArr []))
   \<and> (\<not> throws_next s \<and> map_of (items s) FAVORITES_KEY = Some t \<and> t \<noteq> [] \<and> parse t = Inr (JArr xs)
        \<longrightarrow> fst (loadFavorites parse s) = Inr (JArr xs))"
  using toggle_all_distinct[where xs = xs and ids = ids and stringify = stringify and page = page
          and only_favorites = only_favorites and sp = "(s0, p0)"]
  by (simp add: loadFavorites_eval)

theorem favorites_unique_from_unique_witness:
  "distinct [JStr ''x''] \<and> list_all primitive [JStr ''a'', JStr ''b'', JStr ''a'', JStr ''x'']
   \<and> fst (toggle_all (\<lambda>v. Inl TypeError)
            (\<lambda>c f p. (case c of UpdateFavoriteButton a \<Rightarrow> Inl SyntaxError | _ \<Rightarrow> Inr (), Suc p))
            (\<lambda>p. True)
            [JStr ''a'', JStr ''b'', JStr ''a'', JStr ''x'']
            (JArr [JStr ''x''], \<lparr>items = [], faults = [True]\<rparr>, 0 :: nat))
       = JArr [JStr ''b'']
   \<and> toggleFavorite (\<lambda>v. Inr ''[1]'')
            (\<lambda>c f p. (case c of UpdateFavoriteButton a \<Rightarrow> Inl SyntaxError | _ \<Rightarrow> Inr (), Suc p))
            (\<lambda>p. True) (JStr ''a'')
            (JArr [JStr ''x''], \<lparr>items = [], faults = []\<rparr>, 0 :: nat)
       = (Inl SyntaxError, JArr [JStr ''x'', JStr ''a''],
          \<lparr>items = [(FAVORITES_KEY, ''[1]'')], faults = []\<rparr>, 2)
   \<and> fst (loadFavorites JSON_parse \<lparr>items = [], faults = []\<rparr>) = Inr (JArr [])"
  using favorites_unique_from_unique[where xs = "[JStr ''x'']"
          and ids = "[JStr ''a'', JStr ''b'', JStr ''a'', JStr ''x'']"
          and stringify = "\<lambda>v. Inl TypeError"
          and page = "\<lambda>c f p. (case c of UpdateFavoriteButton a \<Rightarrow> Inl SyntaxError | _ \<Rightarrow> Inr (), Suc p)"
          and only_favorites = "\<lambda>p. True" and ?s0.0 = "\<lparr>items = [], faults = [True]\<rparr>"
          and ?p0.0 = "0 :: nat" and s = "\<lparr>items = [], faults = []\<rparr>" and parse = JSON_parse
          and t = "[]"]
  by (simp add: toggleFavorite_def saveFavorites_def and_then_def on_page_def on_store_def
        setItem_def access_def bind_io_def bind_ex_def try_catch_def lift_io_def return_io_def
        throw_io_def Let_def)

subsection \<open>C3: the priority of the keys in normalization\<close>

text \<open>
  Claim C3 says that the lowercase key wins over its capitalized alias. For the bank (and the
  title) the code tries the capitalized key first: with \<^verbatim>\<open>bank: "a"\<close> and \<^verbatim>\<open>Bank: "B"\<close> the
  account's bank is \<^verbatim>\<open>"B"\<close>.
\<close>

theorem normalizeAccount_prefers_capitalized_bank:
  "bind_ex (normalizeAccount ''0.5'' (JObj [(''bank'', JStr ''a''), (''Bank'', JStr ''B'')]))
     (\<lambda>acc. Inr (prop_of acc ''bank'')) = Inr (JStr ''B'')"
  by (simp add: normalizeAccount_def bind_ex_def or_js_def)

text \<open>
  Claim C3 as amended: for every raw record, each field of the account is the first truthy value
  among the record's keys in the order of the table \<open>priority\<close> (capitalized key first for bank
  and title, lowercase key first for id, iban, currency, purpose and note), and the table's default
  when none is truthy.
\<close>

theorem normalizeAccount_priority:
  assumes "\<not> nullish raw"
  shows "\<exists>acc. normalizeAccount rnd raw = Inr acc \<and>
           list_all (\<lambda>(field, aliases, dflt).
                       prop_of acc field = first_truthy (map (prop_of raw) aliases) dflt)
                    (priority rnd)"
  using assms by (simp add: normalizeAccount_def priority_def or_js_def)

theorem normalizeAccount_priority_witness:
  "\<not> nullish (JObj [(''Title'', JStr []), (''title'', JStr ''t''), (''ID'', JStr ''7''), (''id'', JStr ''8'')])
   \<and> (\<exists>acc. normalizeAccount ''0.5''
               (JObj [(''Title'', JStr []), (''title'', JStr ''t''), (''ID'', JStr ''7''), (''id'', JStr ''8'')])
             = Inr acc
           \<and> map (\<lambda>(field, aliases, dflt). prop_of acc field) (priority ''0.5'') =
             [JStr ''8'', JStr ''Unknown Bank'', JStr ''t'', JStr [], JStr [], JStr ''PKR'',
              JStr ''General'', JStr [], JNull])"
  using normalizeAccount_priority[of "JObj [(''Title'', JStr []), (''title'', JStr ''t''),
          (''ID'', JStr ''7''), (''id'', JStr ''8'')]" "''0.5''"]
  by (simp add: priority_def)

subsection \<open>C4: the migration records the schema version\<close>

text \<open>
  Claim C4 says that the migration always ends with the current schema version recorded, also when
  an exception is raised during the migration. The safe fallback writes to the store outside any
  \<^verbatim>\<open>try\<close>: on a first run with a store whose reads succeed and whose writes throw, the write of
  the version throws in the main path and again in the fallback, the exception leaves
  \<^verbatim>\<open>migrateLocalStorageData\<close>, and no version is recorded. Likewise, with version 1.0 stored
  and a store that throws on every access, the exception leaves the function and the version
  stays 1.0.
\<close>

theorem migrate_write_failure_leaves_version_unset:
  "migrateLocalStorageData JSON_parse \<lparr>items = [], faults = [False, True, False, False, False, True]\<rparr>
   = (Inl StorageError, \<lparr>items = [], faults = []\<rparr>)
   \<and> migrateLocalStorageData JSON_parse \<lparr>items = [(VERSION_KEY, ''1.0'')], faults = [True, True]\<rparr>
   = (Inl StorageError, \<lparr>items = [(VERSION_KEY, ''1.0'')], faults = []\<rparr>)"
  by (simp add: migrateLocalStorageData_def migration_main_def safe_fallback_def try_catch_def
        bind_io_def getItem_def setItem_def keys_def access_def return_io_def)

text \<open>
  Claim C4 as amended: for every starting content of the store (no version, the current version, an
  older or a newer one) and every parser, when at most one access to the store throws during the
  run (none, or one inside the main path, so that the safe fallback runs to its end), the migration
  returns normally with the current schema version recorded; and whenever the migration returns
  normally, the current schema version is recorded.
\<close>

theorem migrate_records_version:
  "(pending s \<le> 1 \<longrightarrow> (\<exists>s'. migrateLocalStorageData parse s = (Inr (), s') \<and> recorded s'))
   \<and> (\<forall>u s'. migrateLocalStorageData parse s = (Inr u, s') \<longrightarrow> recorded s')"
  using migrate_one_fault migrate_recorded by blast

theorem migrate_records_version_witness:
  "pending \<lparr>items = [(VERSION_KEY, ''1.0''), (THEME_KEY, ''blue'')], faults = [False, True]\<rparr> \<le> 1
   \<and> (\<exists>s'. migrateLocalStorageData JSON_parse
              \<lparr>items = [(VERSION_KEY, ''1.0''), (THEME_KEY, ''blue'')], faults = [False, True]\<rparr> = (Inr (), s')
           \<and> recorded s')"
  using migrate_records_version[of "\<lparr>items = [(VERSION_KEY, ''1.0''), (THEME_KEY, ''blue'')], faults = [False, True]\<rparr>" JSON_parse]
  by (simp add: pending_def)

subsection \<open>C5: normalization is total and fills the defaults\<close>

text \<open>
  Claim C5 says that every declared field of a normalized account is a string. The code copies the
  first truthy value as it is: a raw record with the number 7 under \<^verbatim>\<open>id\<close> gives an account
  whose id is the number 7.
\<close>

theorem normalizeAccount_keeps_numeric_id:
  "bind_ex (normalizeAccount ''0.5'' (JObj [(''id'', JNum 7)])) (\<lambda>acc. Inr (prop_of acc ''id''))
     = Inr (JNum 7)
   \<and> \<not> is_string (JNum 7)"
  by (simp add: normalizeAccount_def bind_ex_def or_js_def)

text \<open>
  Claim C5 as amended: for every raw record (every value but \<^verbatim>\<open>null\<close> and \<^verbatim>\<open>undefined\<close>),
  normalization does not raise and returns an object with exactly the keys id, bank, title, acc\_no,
  iban, currency, purpose, note and logo; none of the eight declared fields is \<^verbatim>\<open>undefined\<close> or
  \<^verbatim>\<open>null\<close>; and all eight are strings whenever every truthy value of the raw record is a string.
\<close>

theorem normalizeAccount_total:
  assumes "\<not> nullish raw"
  shows "\<exists>kvs. normalizeAccount rnd raw = Inr (JObj kvs)
           \<and> map fst kvs = declared_fields @ [''logo'']
           \<and> list_all (\<lambda>k. \<not> nullish (prop_of (JObj kvs) k)) declared_fields
           \<and> (strings_only raw \<longrightarrow> list_all (\<lambda>k. is_string (prop_of (JObj kvs) k)) declared_fields)"
  using assms strings_only_prop[of raw]
  by (simp add: normalizeAccount_def declared_fields_def or_js_not_nullish or_js_string)

theorem normalizeAccount_total_witness:
  "\<not> nullish (JObj [(''Bank'', JStr ''X''), (''acc_no'', JStr ''123456789012''), (''note'', JNull)])
   \<and> strings_only (JObj [(''Bank'', JStr ''X''), (''acc_no'', JStr ''123456789012''), (''note'', JNull)])
   \<and> (\<exists>kvs. normalizeAccount ''0.5''
               (JObj [(''Bank'', JStr ''X''), (''acc_no'', JStr ''123456789012''), (''note'', JNull)])
             = Inr (JObj kvs)
           \<and> map fst kvs = declared_fields @ [''logo'']
           \<and> list_all (\<lambda>k. is_string (prop_of (JObj kvs) k)) declared_fields)"
  using normalizeAccount_total[of "JObj [(''Bank'', JStr ''X''), (''acc_no'', JStr ''123456789012''),
          (''note'', JNull)]" "''0.5''"]
  by (auto simp: strings_only_def)

subsection \<open>C6: what \<^verbatim>\<open>loadFavorites\<close> returns\<close>

text \<open>
  Claim C6 says that the result of \<^verbatim>\<open>loadFavorites\<close> is in all cases a sequence of string ids.
  The code returns whatever the stored text parses to: a stored \<^verbatim>\<open>{"a":1}\<close> gives an object,
  also when the migration has run first, as it does at startup.
\<close>

theorem loadFavorites_returns_non_sequence:
  "fst (loadFavorites JSON_parse \<lparr>items = [(FAVORITES_KEY, ''{\"a\":1}'')], faults = []\<rparr>)
     = Inr (JObj [(''a'', JNum 1)])
   \<and> fst (bind_io (migrateLocalStorageData JSON_parse) (\<lambda>_. loadFavorites JSON_parse)
            \<lparr>items = [(FAVORITES_KEY, ''{\"a\":1}'')], faults = []\<rparr>)
     = Inr (JObj [(''a'', JNum 1)])
   \<and> \<not> isArray (JObj [(''a'', JNum 1)])"
proof -
  have "migrateLocalStorageData JSON_parse \<lparr>items = [(FAVORITES_KEY, ''{\"a\":1}'')], faults = []\<rparr>
        = (Inr (), \<lparr>items = [(FAVORITES_KEY, ''{\"a\":1}''), (VERSION_KEY, APP_VERSION)], faults = []\<rparr>)"
    by (simp add: migrateLocalStorageData_def migration_main_def try_catch_def bind_io_def
          getItem_def setItem_def access_def return_io_def FAVORITES_KEY_def VERSION_KEY_def)
  then show ?thesis
    by (simp add: bind_io_def loadFavorites_eval throws_next_def parse_object
          FAVORITES_KEY_def VERSION_KEY_def)
qed

text \<open>
  Claim C6 as amended: for every stored favorites value, \<^verbatim>\<open>loadFavorites\<close> does not raise and
  leaves every entry of the store as it is; it returns the empty sequence when the key is absent,
  holds the empty string or fails to parse, or when reading the store throws; otherwise it returns
  the value the stored text parses to, as it is.
\<close>

theorem loadFavorites_result:
  "items (snd (loadFavorites parse s)) = items s
   \<and> (\<exists>v. fst (loadFavorites parse s) = Inr v)
   \<and> (throws_next s \<or> map_of (items s) FAVORITES_KEY = None \<or> map_of (items s) FAVORITES_KEY = Some []
        \<longrightarrow> fst (loadFavorites parse s) = Inr (JArr []))
   \<and> (\<not> throws_next s \<and> map_of (items s) FAVORITES_KEY = Some t \<and> t \<noteq> []
        \<longrightarrow> fst (loadFavorites parse s) = Inr (case parse t of Inl e \<Rightarrow> JArr [] | Inr v \<Rightarrow> v))"
  by (auto simp: loadFavorites_eval)

theorem loadFavorites_result_witness:
  "loadFavorites JSON_parse \<lparr>items = [(FAVORITES_KEY, ''not json'')], faults = []\<rparr>
     = (Inr (JArr []), \<lparr>items = [(FAVORITES_KEY, ''not json'')], faults = []\<rparr>)"
proof -
  let ?s = "\<lparr>items = [(FAVORITES_KEY, ''not json'')], faults = []\<rparr>"
  from loadFavorites_result[of JSON_parse ?s "''not json''"]
  have "items (snd (loadFavorites JSON_parse ?s)) = items ?s"
    and "fst (loadFavorites JSON_parse ?s) = Inr (JArr [])"
    by (simp_all add: throws_next_def parse_garbage)
  moreover have "faults (snd (loadFavorites JSON_parse ?s)) = []"
    by (simp add: loadFavorites_eval)
  ultimately show ?thesis
    by (cases "loadFavorites JSON_parse ?s"; cases "snd (loadFavorites JSON_parse ?s)") simp
qed

subsection \<open>C7: an account passes iff all active predicates hold\<close>




subsection \<open>C8: the neutral criteria filter nothing\<close>

text \<open>
  Claim C8: for every account list and every favorites array, filtering with the neutral criteria
  (empty search text, currency \<open>all\<close>, purpose \<open>all\<close>, \<open>favoritesOnly\<close> false) returns the input
  list unchanged, in the same order.
\<close>

theorem applyFilters_neutral_identity:
  "applyFilters \<lparr>search = [], currency = ''all'', purpose = ''all'', favoritesOnly = False\<rparr> favs accounts
   = Inr accounts"
proof -
  have "filter_ex (account_passes \<lparr>search = [], currency = ''all'', purpose = ''all'',
                     favoritesOnly = False\<rparr> favs) accounts = Inr (filter (\<lambda>_. True) accounts)"
    by (rule filter_ex_total) (simp add: account_passes_def bind_ex_def)
  then show ?thesis by (simp add: applyFilters_def)
qed

theorem applyFilters_neutral_identity_witness:
  "applyFilters \<lparr>search = [], currency = ''all'', purpose = ''all'', favoritesOnly = False\<rparr>
     [JStr ''3''] [JNull, JObj [(''id'', JNum 1)], JNull] = Inr [JNull, JObj [(''id'', JNum 1)], JNull]"
  using applyFilters_neutral_identity[of "[JStr ''3'']" "[JNull, JObj [(''id'', JNum 1)], JNull]"]
  by simp

subsection \<open>C9: the fallback data after a load failure\<close>

text \<open>
  Claim C9 says that after a load failure the fallback data is held normalized, with all canonical
  fields present. \<^verbatim>\<open>loadData\<close> of app.js does so (\<open>loadData_failure\<close> above). \<^verbatim>\<open>loadData\<close> of
  app\_backup.js assigns the sample data as it is: after any load failure it does not raise, and
  the three records it holds have no \<^verbatim>\<open>bank\<close>, no \<^verbatim>\<open>title\<close> and no \<^verbatim>\<open>note\<close> (their keys are
  \<^verbatim>\<open>Bank\<close> and \<^verbatim>\<open>Title\<close>).
\<close>

theorem loadData_backup_fallback_not_normalized:
  assumes "load_fails parse fetched"
  shows "loadData_backup parse rnd fetched = Inr getSampleData
   \<and> map (\<lambda>a. prop_of a ''bank'') getSampleData = [JUndefined, JUndefined, JUndefined]
   \<and> map (\<lambda>a. prop_of a ''title'') getSampleData = [JUndefined, JUndefined, JUndefined]
   \<and> map (\<lambda>a. prop_of a ''note'') getSampleData = [JUndefined, JUndefined, JUndefined]"
proof -
  have "loadData_backup parse rnd fetched = Inr getSampleData"
    using assms
    by (auto simp: load_fails_def loadData_backup_def bind_ex_def split: sum.splits jsval.splits)
  then show ?thesis by (simp add: getSampleData_def)
qed

theorem loadData_backup_fallback_not_normalized_witness:
  "load_fails JSON_parse (Inl NetworkError)
   \<and> bind_ex (loadData_backup JSON_parse (\<lambda>i. ''0.5'') (Inl NetworkError))
       (\<lambda>accounts. Inr (map (\<lambda>a. prop_of a ''bank'') accounts))
     = Inr [JUndefined, JUndefined, JUndefined]"
proof -
  have f: "load_fails JSON_parse (Inl NetworkError)" by (simp add: load_fails_def)
  from loadData_backup_fallback_not_normalized[OF f, of "\<lambda>i. ''0.5''"] f
  show ?thesis by (simp add: bind_ex_def)
qed

subsection \<open>C10: a stored version that is not older than 2.0\<close>

text \<open>
  Claim C10: for every stored schema version that differs from the current one and is not
  lexicographically less than \<^verbatim>\<open>"2.0"\<close>, the migration leaves the entries of the theme and of the
  favorites as they are, whatever the store throws; it returns normally with the current schema
  version recorded when at most one access throws; and when no access throws, writing the version
  is the only change to the store.
\<close>

theorem migrate_newer_version_frame:
  assumes "map_of (items s) VERSION_KEY = Some v" "v \<noteq> APP_VERSION" "\<not> str_less v ''2.0''"
    and "migrateLocalStorageData parse s = (r, s')"
  shows "map_of (items s') THEME_KEY = map_of (items s) THEME_KEY
       \<and> map_of (items s') FAVORITES_KEY = map_of (items s) FAVORITES_KEY
       \<and> (pending s \<le> 1 \<longrightarrow> r = Inr () \<and> map_of (items s') VERSION_KEY = Some APP_VERSION)
       \<and> (pending s = 0 \<longrightarrow> items s' = AList.update VERSION_KEY APP_VERSION (items s))"
proof -
  have frame: "map_of (items s') THEME_KEY = map_of (items s) THEME_KEY
       \<and> map_of (items s') FAVORITES_KEY = map_of (items s) FAVORITES_KEY"
    using assms by (rule migrate_newer_frame)
  have one: "pending s \<le> 1 \<longrightarrow> r = Inr () \<and> map_of (items s') VERSION_KEY = Some APP_VERSION"
    using migrate_one_fault[of s parse] assms(4) by (auto simp: recorded_def)
  have quiet: "pending s = 0 \<longrightarrow> items s' = AList.update VERSION_KEY APP_VERSION (items s)"
  proof
    assume "pending s = 0"
    from migration_main_newer_quiet[OF assms(1-3) this, of parse] assms(4)
    show "items s' = AList.update VERSION_KEY APP_VERSION (items s)"
      by (auto simp: migrateLocalStorageData_def try_catch_def)
  qed
  from frame one quiet show ?thesis by blast
qed

theorem migrate_newer_version_frame_witness:
  "map_of [(VERSION_KEY, ''3.0''), (THEME_KEY, ''blue''), (FAVORITES_KEY, ''{}'')] VERSION_KEY = Some ''3.0''
   \<and> ''3.0'' \<noteq> APP_VERSION \<and> \<not> str_less ''3.0'' ''2.0''
   \<and> migrateLocalStorageData JSON_parse
        \<lparr>items = [(VERSION_KEY, ''3.0''), (THEME_KEY, ''blue''), (FAVORITES_KEY, ''{}'')], faults = []\<rparr>
      = (Inr (), \<lparr>items = [(VERSION_KEY, ''2.0''), (THEME_KEY, ''blue''), (FAVORITES_KEY, ''{}'')], faults = []\<rparr>)"
proof -
  let ?s = "\<lparr>items = [(VERSION_KEY, ''3.0''), (THEME_KEY, ''blue''), (FAVORITES_KEY, ''{}'')], faults = []\<rparr>"
  obtain r s' where m: "migrateLocalStorageData JSON_parse ?s = (r, s')" by fastforce
  have h: "map_of (items ?s) VERSION_KEY = Some ''3.0''" "''3.0'' \<noteq> APP_VERSION" "\<not> str_less ''3.0'' ''2.0''"
    by (simp_all add: APP_VERSION_def)
  from migrate_newer_version_frame[OF h m]
  have "r = Inr ()" "items s' = AList.update VERSION_KEY APP_VERSION (items ?s)"
    by (simp_all add: pending_def)
  moreover have "faults s' = []"
    using m
    by (simp add: migrateLocalStorageData_def migration_main_def try_catch_def
        bind_io_def getItem_def setItem_def access_def return_io_def showToast_def
        VERSION_KEY_def APP_VERSION_def THEME_KEY_def FAVORITES_KEY_def) auto
  ultimately have "s' = \<lparr>items = [(VERSION_KEY, ''2.0''), (THEME_KEY, ''blue''), (FAVORITES_KEY, ''{}'')], faults = []\<rparr>"
    by (cases s') (simp add: APP_VERSION_def)
  with m \<open>r = Inr ()\<close> h show ?thesis by simp
qed

end
